theory Spec2Isabelle
  imports Complex_Main
begin

section \<open>Python values\<close>

text \<open>
  The gateway handles decoded JSON throughout (upstream lines, the chunk it builds, the
  arguments of the emitter), so the model has one type of Python values as \<open>json.loads\<close>
  produces them. A dict is an association list in insertion order with distinct keys;
  \<open>None\<close> is \<open>JNull\<close>. Numbers are Python's unbounded integers; non-integer numbers
  are not represented. A character of a \<open>string\<close> stands for one code point below 256.
\<close>

datatype json =
    JNull
  | JBool bool
  | JInt int
  | JStr string
  | JArr "json list"
  | JObj "(string \<times> json) list"

datatype py_error =
    IndexError
  | KeyError
  | TypeError
  | AttributeError
  | ValueError
  | JSONDecodeError
  | UnicodeDecodeError
  | StopAsyncIteration
  | HTTPException json string

text \<open>Truth value of an object in a condition (\<open>if content\<close>, \<open>if role\<close>, ...).\<close>

fun truthy :: "json \<Rightarrow> bool" where
  "truthy JNull = False"
| "truthy (JBool b) = b"
| "truthy (JInt n) = (n \<noteq> 0)"
| "truthy (JStr s) = (s \<noteq> [])"
| "truthy (JArr xs) = (xs \<noteq> [])"
| "truthy (JObj kvs) = (kvs \<noteq> [])"

text \<open>The binary \<open>+\<close> on the values above; every other pair of operands raises TypeError.\<close>

fun py_add :: "json \<Rightarrow> json \<Rightarrow> py_error + json" where
  "py_add (JInt a) (JInt b) = Inr (JInt (a + b))"
| "py_add (JInt a) (JBool b) = Inr (JInt (a + (if b then 1 else 0)))"
| "py_add (JBool a) (JInt b) = Inr (JInt ((if a then 1 else 0) + b))"
| "py_add (JBool a) (JBool b) = Inr (JInt ((if a then 1 else 0) + (if b then 1 else 0)))"
| "py_add (JStr a) (JStr b) = Inr (JStr (a @ b))"
| "py_add (JArr a) (JArr b) = Inr (JArr (a @ b))"
| "py_add _ _ = Inl TypeError"

text \<open>\<open>d.get(k)\<close> and \<open>k in d\<close> on a dict.\<close>

definition dict_get :: "(string \<times> json) list \<Rightarrow> string \<Rightarrow> json option" where
  "dict_get kvs k = map_of kvs k"

text \<open>\<open>obj.get(k, default)\<close> where \<open>obj\<close> is known to be a dict.\<close>

definition get_default :: "(string \<times> json) list \<Rightarrow> string \<Rightarrow> json \<Rightarrow> json" where
  "get_default kvs k d = (case map_of kvs k of Some v \<Rightarrow> v | None \<Rightarrow> d)"

text \<open>Field of a value that may or may not be a dict (used to read the emitted chunk).\<close>

fun field :: "json \<Rightarrow> string \<Rightarrow> json option" where
  "field (JObj kvs) k = map_of kvs k"
| "field _ k = None"

section \<open>json.dumps\<close>

definition dq :: char where "dq = CHR 0x22"

definition bsl :: char where "bsl = CHR 0x5C"

definition hex_digit :: "nat \<Rightarrow> char" where
  "hex_digit n = ''0123456789abcdef'' ! (n mod 16)"

text \<open>
  One character of a JSON string literal. With \<open>ensure_ascii\<close> everything outside
  \<open>' '..'~'\<close> is escaped, without it only the control characters, the quote and the
  backslash.
\<close>

definition py_escape_char :: "bool \<Rightarrow> char \<Rightarrow> string" where
  "py_escape_char ensure_ascii c =
     (if c = dq then [bsl, dq]
      else if c = bsl then [bsl, bsl]
      else if c = CHR 0x0A then [bsl, CHR ''n'']
      else if c = CHR 0x0D then [bsl, CHR ''r'']
      else if c = CHR 0x09 then [bsl, CHR ''t'']
      else if c = CHR 0x08 then [bsl, CHR ''b'']
      else if c = CHR 0x0C then [bsl, CHR ''f'']
      else if (of_char c :: nat) < 32 \<or> (ensure_ascii \<and> (of_char c :: nat) > 126)
        then [bsl, CHR ''u'', CHR ''0'', CHR ''0'',
              hex_digit ((of_char c :: nat) div 16), hex_digit (of_char c :: nat)]
      else [c])"

definition py_encode_str :: "bool \<Rightarrow> string \<Rightarrow> string" where
  "py_encode_str ensure_ascii s = [dq] @ concat (map (py_escape_char ensure_ascii) s) @ [dq]"

fun nat_digits :: "nat \<Rightarrow> string" where
  "nat_digits n =
     (if n < 10 then [char_of (48 + n)] else nat_digits (n div 10) @ [char_of (48 + n mod 10)])"

declare nat_digits.simps [simp del]

definition str_int :: "int \<Rightarrow> string" where
  "str_int i = (if i < 0 then ''-'' @ nat_digits (nat (- i)) else nat_digits (nat i))"

text \<open>\<open>json.dumps(v, ensure_ascii=...)\<close> with the default separators \<open>', '\<close> and \<open>': '\<close>.\<close>

fun dumps :: "bool \<Rightarrow> json \<Rightarrow> string"
  and dumps_items :: "bool \<Rightarrow> json list \<Rightarrow> string"
  and dumps_fields :: "bool \<Rightarrow> (string \<times> json) list \<Rightarrow> string" where
  "dumps ea JNull = ''null''"
| "dumps ea (JBool b) = (if b then ''true'' else ''false'')"
| "dumps ea (JInt n) = str_int n"
| "dumps ea (JStr s) = py_encode_str ea s"
| "dumps ea (JArr xs) = ''['' @ dumps_items ea xs @ '']''"
| "dumps ea (JObj kvs) = ''{'' @ dumps_fields ea kvs @ ''}''"
| "dumps_items ea [] = []"
| "dumps_items ea [x] = dumps ea x"
| "dumps_items ea (x # y # xs) = dumps ea x @ '', '' @ dumps_items ea (y # xs)"
| "dumps_fields ea [] = []"
| "dumps_fields ea [(k, v)] = py_encode_str ea k @ '': '' @ dumps ea v"
| "dumps_fields ea ((k, v) # kv # kvs) =
     py_encode_str ea k @ '': '' @ dumps ea v @ '', '' @ dumps_fields ea (kv # kvs)"

section \<open>The SSE emitter (utils.py)\<close>

definition end_of_line :: string where
  "end_of_line = [CHR 0x0A, CHR 0x0A]"

definition ascii_letters :: string where
  "ascii_letters = ''abcdefghijklmnopqrstuvwxyzABCDEFGHIJKLMNOPQRSTUVWXYZ''"

definition digits :: string where
  "digits = ''0123456789''"

text \<open>
  \<open>random.choices(population, k=k)\<close> draws \<open>population[floor(random() * n)]\<close> \<open>k\<close> times.
  The generator is a parameter: \<open>rand i\<close> is the \<open>i\<close>-th value of \<open>random()\<close> after the
  last \<open>random.seed\<close>, which the library documents to lie in \<open>[0, 1)\<close>.
\<close>

definition choices :: "(nat \<Rightarrow> real) \<Rightarrow> 'a list \<Rightarrow> nat \<Rightarrow> 'a list" where
  "choices rand population k =
     map (\<lambda>i. population ! nat \<lfloor>rand i * real (length population)\<rfloor>) [0..<k]"

text \<open>
  \<open>random.seed(a)\<close>. An int (a bool is one) or a str is the seed, and the values of
  \<open>random()\<close> that follow are \<open>rnd a\<close>, a function of the seed. \<open>None\<close> makes the generator
  seed itself from the operating system: the values that follow are \<open>entropy\<close>, a stream
  that belongs to this one call. A list or a dict is refused with TypeError.
\<close>

fun random_seed ::
  "(json \<Rightarrow> nat \<Rightarrow> real) \<Rightarrow> (nat \<Rightarrow> real) \<Rightarrow> json \<Rightarrow> py_error + (nat \<Rightarrow> real)" where
  "random_seed rnd entropy JNull = Inr entropy"
| "random_seed rnd entropy (JArr xs) = Inl TypeError"
| "random_seed rnd entropy (JObj kvs) = Inl TypeError"
| "random_seed rnd entropy a = Inr (rnd a)"

text \<open>\<open>''.join(random.choices(string.ascii_letters + string.digits, k=29))\<close> on the seeded
  generator, and the id made of it.\<close>

definition random_str :: "(nat \<Rightarrow> real) \<Rightarrow> string" where
  "random_str rand = choices rand (ascii_letters @ digits) 29"

definition chat_id :: "(nat \<Rightarrow> real) \<Rightarrow> string" where
  "chat_id rand = ''chatcmpl-'' @ random_str rand"

text \<open>The dict \<open>sample_data\<close> of \<open>generate_sse_response\<close> just before it is serialised;
  \<open>rand\<close> is the generator as \<open>random.seed(timestamp)\<close> left it.\<close>

definition sse_sample_data ::
  "(nat \<Rightarrow> real) \<Rightarrow> json \<Rightarrow> json \<Rightarrow> json \<Rightarrow> json \<Rightarrow> json \<Rightarrow> json \<Rightarrow> json
     \<Rightarrow> json \<Rightarrow> json \<Rightarrow> json \<Rightarrow> py_error + json" where
  "sse_sample_data rand timestamp model content tools_id function_call_name
       function_call_content role total_tokens prompt_tokens completion_tokens =
     (let delta0 = (if truthy content then JObj [(''content'', content)] else JObj []);
          finish_reason = (if truthy content then JNull else JStr ''stop'');
          delta1 = (if truthy function_call_content
                    then JObj [(''tool_calls'', JArr [JObj [(''index'', JInt 0),
                           (''function'', JObj [(''arguments'', function_call_content)])]])]
                    else delta0);
          delta2 = (if truthy tools_id \<and> truthy function_call_name
                    then JObj [(''tool_calls'', JArr [JObj [(''index'', JInt 0),
                           (''id'', tools_id), (''type'', JStr ''function''),
                           (''function'', JObj [(''name'', function_call_name),
                                                (''arguments'', JStr [])])]])]
                    else delta1);
          delta3 = (if truthy role then JObj [(''role'', role), (''content'', JStr [])]
                    else delta2);
          choice = JObj [(''index'', JInt 0), (''delta'', delta3), (''logprobs'', JNull),
                         (''finish_reason'', finish_reason)]
      in if truthy total_tokens then
           (case py_add prompt_tokens completion_tokens of
              Inl e \<Rightarrow> Inl e
            | Inr tot \<Rightarrow>
                Inr (JObj [(''id'', JStr (chat_id rand)),
                           (''object'', JStr ''chat.completion.chunk''),
                           (''created'', timestamp),
                           (''model'', model),
                           (''choices'', JArr []),
                           (''usage'', JObj [(''prompt_tokens'', prompt_tokens),
                                             (''completion_tokens'', completion_tokens),
                                             (''total_tokens'', tot)]),
                           (''system_fingerprint'', JStr ''fp_d576307f90'')]))
         else
           Inr (JObj [(''id'', JStr (chat_id rand)),
                      (''object'', JStr ''chat.completion.chunk''),
                      (''created'', timestamp),
                      (''model'', model),
                      (''choices'', JArr [choice]),
                      (''usage'', JNull),
                      (''system_fingerprint'', JStr ''fp_d576307f90'')]))"

definition sse_line :: "json \<Rightarrow> string" where
  "sse_line sample_data = ''data: '' @ dumps False sample_data @ end_of_line"

definition generate_sse_response ::
  "(json \<Rightarrow> nat \<Rightarrow> real) \<Rightarrow> (nat \<Rightarrow> real) \<Rightarrow> json \<Rightarrow> json \<Rightarrow> json \<Rightarrow> json \<Rightarrow> json
     \<Rightarrow> json \<Rightarrow> json \<Rightarrow> json \<Rightarrow> json \<Rightarrow> json \<Rightarrow> py_error + string" where
  "generate_sse_response rnd entropy timestamp model content tools_id function_call_name
       function_call_content role total_tokens prompt_tokens completion_tokens =
     (case random_seed rnd entropy timestamp of
        Inl e \<Rightarrow> Inl e
      | Inr rand \<Rightarrow>
          (case sse_sample_data rand timestamp model content tools_id function_call_name
                  function_call_content role total_tokens prompt_tokens completion_tokens of
             Inl e \<Rightarrow> Inl e
           | Inr sample_data \<Rightarrow> Inr (sse_line sample_data)))"



section \<open>The credential pool (utils.py, ThreadSafeCircularList)\<close>

text \<open>\<open>sub in s\<close> on strings.\<close>

fun contains :: "string \<Rightarrow> string \<Rightarrow> bool" where
  "contains [] sub = (sub = [])"
| "contains (c # cs) sub = (take (length sub) (c # cs) = sub \<or> contains cs sub)"

text \<open>
  A rate limit is the list of \<open>(count, period_seconds)\<close> pairs that \<open>parse_rate_limit\<close>
  returns for one configuration string; the pool holds the table of these lists, in the order
  of the configuration dict. \<open>time()\<close> is a real number, passed in by the caller. The request
  log and the cooling map are defaultdicts: total functions with the defaults \<open>[]\<close> and 0.
\<close>

type_synonym rate_limit = "(nat \<times> nat) list"

record pool =
  items :: "string list"
  schedule_algorithm :: string
  index :: nat
  requests :: "string \<Rightarrow> string \<Rightarrow> real list"
  cooling_until :: "string \<Rightarrow> real"
  rate_limits :: "(string \<times> rate_limit) list"

text \<open>The constructor; \<open>sample\<close> stands for \<open>random.sample(items, len(items))\<close> and
  \<open>table\<close> for the parsed \<open>rate_limit\<close> argument.\<close>

definition ThreadSafeCircularList ::
  "(string list \<Rightarrow> string list) \<Rightarrow> string list \<Rightarrow> (string \<times> rate_limit) list \<Rightarrow> string \<Rightarrow> pool" where
  "ThreadSafeCircularList sample its table alg =
     \<lparr> items = (if alg = ''random'' then sample its else its),
       schedule_algorithm =
         (if alg = ''random'' then ''random''
          else if alg = ''round_robin'' then ''round_robin''
          else if alg = ''fixed_priority'' then ''fixed_priority''
          else ''round_robin''),
       index = 0,
       requests = (\<lambda>item model_key. []),
       cooling_until = (\<lambda>item. 0),
       rate_limits = table \<rparr>"

definition set_cooling :: "real \<Rightarrow> pool \<Rightarrow> string option \<Rightarrow> real \<Rightarrow> pool" where
  "set_cooling now s item cooling_time =
     (case item of
        None \<Rightarrow> s
      | Some it \<Rightarrow> s\<lparr>cooling_until := (cooling_until s)(it := now + cooling_time)\<rparr>)"

text \<open>\<open>if model\<close>: the model is given and not the empty string.\<close>

definition model_truthy :: "string option \<Rightarrow> bool" where
  "model_truthy model = (case model of None \<Rightarrow> False | Some m \<Rightarrow> m \<noteq> [])"

definition model_key :: "string option \<Rightarrow> string" where
  "model_key model = (if model_truthy model then the model else ''default'')"

text \<open>The loop over \<open>self.rate_limits\<close> that looks for a pattern contained in the model name.\<close>

fun fuzzy_match :: "(string \<times> rate_limit) list \<Rightarrow> string option \<Rightarrow> rate_limit option" where
  "fuzzy_match [] model = None"
| "fuzzy_match ((limit_model, limit) # rest) model =
     (if limit_model \<noteq> ''default'' \<and> model_truthy model \<and> contains (the model) limit_model
      then Some limit else fuzzy_match rest model)"

definition applicable_rate_limit :: "(string \<times> rate_limit) list \<Rightarrow> string option \<Rightarrow> rate_limit" where
  "applicable_rate_limit table model =
     (let exact = (if model_truthy model then map_of table (the model) else None);
          rate_limit = (case exact of Some l \<Rightarrow> Some l | None \<Rightarrow> fuzzy_match table model)
      in case rate_limit of
           Some l \<Rightarrow> l
         | None \<Rightarrow> (case map_of table ''default'' of Some l \<Rightarrow> l | None \<Rightarrow> [(999999, 60)]))"

definition recent_requests :: "real list \<Rightarrow> real \<Rightarrow> nat \<Rightarrow> nat" where
  "recent_requests reqs now limit_period = length (filter (\<lambda>req. req > now - real limit_period) reqs)"

text \<open>The loop over the applicable limits: True as soon as one window is full.\<close>

fun limit_reached :: "real list \<Rightarrow> real \<Rightarrow> rate_limit \<Rightarrow> bool" where
  "limit_reached reqs now [] = False"
| "limit_reached reqs now ((limit_count, limit_period) # rest) =
     (if recent_requests reqs now limit_period \<ge> limit_count then True
      else limit_reached reqs now rest)"

text \<open>\<open>max(...)\<close> of a sequence; it raises ValueError on an empty one.\<close>

fun max_list :: "nat list \<Rightarrow> py_error + nat" where
  "max_list [] = Inl ValueError"
| "max_list (x # xs) = Inr (fold max xs x)"

definition is_rate_limited :: "real \<Rightarrow> pool \<Rightarrow> string \<Rightarrow> string option \<Rightarrow> py_error + (bool \<times> pool)" where
  "is_rate_limited now s item model =
     (if now < cooling_until s item then Inr (True, s)
      else
        let mkey = model_key model;
            rate_limit = applicable_rate_limit (rate_limits s) model;
            reqs = requests s item mkey
        in if limit_reached reqs now rate_limit then Inr (True, s)
           else
             (case max_list (map snd rate_limit) of
                Inl e \<Rightarrow> Inl e
              | Inr max_period \<Rightarrow>
                  Inr (False,
                       s\<lparr>requests := (requests s)(item := (requests s item)
                            (mkey := filter (\<lambda>req. req > now - real max_period) reqs @ [now]))\<rparr>)))"

text \<open>
  The \<open>while True\<close> loop of \<open>next\<close>. \<open>clock k\<close> is the time read by the \<open>k\<close>-th call of
  \<open>is_rate_limited\<close>. The result is the credential or the exception, with the pool as the call
  leaves it; \<open>None\<close> would mean that the loop does not return.
\<close>

partial_function (option) next_loop ::
  "(nat \<Rightarrow> real) \<Rightarrow> string option \<Rightarrow> nat \<Rightarrow> nat \<Rightarrow> pool \<Rightarrow> ((py_error + string) \<times> pool) option" where
  "next_loop clock model start_index k s =
     (if index s \<ge> length (items s) then Some (Inl IndexError, s)
      else
        let item = items s ! index s;
            s1 = s\<lparr>index := (index s + 1) mod length (items s)\<rparr>
        in case is_rate_limited (clock k) s1 item model of
             Inl e \<Rightarrow> Some (Inl e, s1)
           | Inr (limited, s2) \<Rightarrow>
               if \<not> limited then Some (Inr item, s2)
               else if index s2 = start_index
                 then Some (Inl (HTTPException (JInt 429) ''Too many requests''), s2)
                 else next_loop clock model start_index (Suc k) s2)"

text \<open>The method \<open>next\<close> (a reserved word here, hence the name).\<close>

definition next_item ::
  "(nat \<Rightarrow> real) \<Rightarrow> string option \<Rightarrow> pool \<Rightarrow> ((py_error + string) \<times> pool) option" where
  "next_item clock model s =
     (let s0 = (if schedule_algorithm s = ''fixed_priority'' then s\<lparr>index := 0\<rparr> else s)
      in next_loop clock model (index s0) 0 s0)"

definition after_next_current :: "pool \<Rightarrow> string option" where
  "after_next_current s =
     (if length (items s) = 0 then None
      else Some (items s ! nat ((int (index s) - 1) mod int (length (items s)))))"

definition get_items_count :: "pool \<Rightarrow> nat" where
  "get_items_count s = length (items s)"

section \<open>Strings and dynamic access as the adapters use them\<close>

definition starts_with :: "string \<Rightarrow> string \<Rightarrow> bool" where
  "starts_with s prefix = (take (length prefix) s = prefix)"

text \<open>\<open>s.lstrip(chars)\<close> removes leading characters that occur in \<open>chars\<close>.\<close>

definition lstrip_chars :: "string \<Rightarrow> string \<Rightarrow> string" where
  "lstrip_chars chars s = dropWhile (\<lambda>c. c \<in> set chars) s"

text \<open>Whitespace of \<open>str.strip()\<close> among the code points below 256.\<close>

definition is_space :: "char \<Rightarrow> bool" where
  "is_space c = (let n = (of_char c :: nat) in
     (9 \<le> n \<and> n \<le> 13) \<or> (28 \<le> n \<and> n \<le> 32) \<or> n = 133 \<or> n = 160)"

definition py_strip :: "string \<Rightarrow> string" where
  "py_strip s = rev (dropWhile is_space (rev (dropWhile is_space s)))"

text \<open>
  The complete lines of a buffer and the rest after the last newline: what the loop
  \<open>while "\\n" in buffer: line, buffer = buffer.split("\\n", 1)\<close> hands out, in order,
  and what it leaves in \<open>buffer\<close>.
\<close>

fun split_lines :: "string \<Rightarrow> string list \<times> string" where
  "split_lines [] = ([], [])"
| "split_lines (c # cs) =
     (case split_lines cs of
        (ls, r) \<Rightarrow>
          if c = CHR 0x0A then ([] # ls, r)
          else (case ls of [] \<Rightarrow> ([], c # r) | l # ls' \<Rightarrow> ((c # l) # ls', r)))"

text \<open>\<open>"\\n".join(content.split("\\\\n"))\<close>: every backslash followed by \<open>n\<close> becomes a newline.\<close>

fun unescape_newlines :: "string \<Rightarrow> string" where
  "unescape_newlines (a # b # cs) =
     (if a = bsl \<and> b = CHR ''n'' then CHR 0x0A # unescape_newlines cs
      else a # unescape_newlines (b # cs))"
| "unescape_newlines cs = cs"

text \<open>\<open>obj.get(k, default)\<close>; only a dict has \<open>get\<close>.\<close>

fun py_get :: "json \<Rightarrow> string \<Rightarrow> json \<Rightarrow> py_error + json" where
  "py_get (JObj kvs) k d = Inr (get_default kvs k d)"
| "py_get _ k d = Inl AttributeError"

text \<open>\<open>obj[k]\<close> for a string key.\<close>

fun py_getitem :: "json \<Rightarrow> string \<Rightarrow> py_error + json" where
  "py_getitem (JObj kvs) k = (case map_of kvs k of Some v \<Rightarrow> Inr v | None \<Rightarrow> Inl KeyError)"
| "py_getitem _ k = Inl TypeError"

text \<open>\<open>k in obj\<close> for a string \<open>k\<close>.\<close>

fun py_in :: "string \<Rightarrow> json \<Rightarrow> py_error + bool" where
  "py_in k (JObj kvs) = Inr (k \<in> fst ` set kvs)"
| "py_in k (JStr s) = Inr (contains s k)"
| "py_in k (JArr xs) = Inr (JStr k \<in> set xs)"
| "py_in k _ = Inl TypeError"

text \<open>\<open>obj[k] = v\<close> for a string key: only a dict accepts it.\<close>

fun dict_update :: "(string \<times> json) list \<Rightarrow> string \<Rightarrow> json \<Rightarrow> (string \<times> json) list" where
  "dict_update [] k v = [(k, v)]"
| "dict_update ((k', v') # kvs) k v =
     (if k' = k then (k, v) # kvs else (k', v') # dict_update kvs k v)"

fun py_setitem :: "json \<Rightarrow> string \<Rightarrow> json \<Rightarrow> py_error + json" where
  "py_setitem (JObj kvs) k v = Inr (JObj (dict_update kvs k v))"
| "py_setitem _ k v = Inl TypeError"

text \<open>\<open>safe_get(data, *keys, default=None)\<close>; a key is a dict key or a list index.\<close>

datatype path_key = Key string | Idx int

fun safe_step :: "json \<Rightarrow> path_key \<Rightarrow> json option" where
  "safe_step (JObj kvs) (Key k) = map_of kvs k"
| "safe_step (JArr xs) (Idx i) =
     (if 0 \<le> i \<and> i < int (length xs) then Some (xs ! nat i)
      else if i < 0 \<and> - int (length xs) \<le> i then Some (xs ! nat (int (length xs) + i))
      else None)"
| "safe_step _ _ = None"

fun safe_get :: "json \<Rightarrow> path_key list \<Rightarrow> json \<Rightarrow> json" where
  "safe_get data [] d = data"
| "safe_get data (key # keys) d =
     (case safe_step data key of None \<Rightarrow> d | Some v \<Rightarrow> safe_get v keys d)"

section \<open>Provider stream adapters (response.py)\<close>

text \<open>
  An adapter is an async generator; the model returns the list of items it yields and how
  it ended. The upstream response is its status code, its body (read only on an error
  status) and the text chunks of \<open>aiter_text()\<close>. \<open>json.loads\<close> is a parameter:
  \<open>loads s = None\<close> stands for JSONDecodeError.
\<close>

datatype event = EStr string | EDict "(string \<times> json) list" | EBytes string

datatype outcome = Finished | Raised py_error

record response =
  status_code :: int
  body :: string
  chunks :: "string list"

definition done_line :: string where
  "done_line = ''data: [DONE]'' @ end_of_line"

definition check_response ::
  "(string \<Rightarrow> json option) \<Rightarrow> response \<Rightarrow> string \<Rightarrow> (string \<times> json) list option" where
  "check_response loads resp error_log =
     (if \<not> (200 \<le> status_code resp \<and> status_code resp < 300) then
        Some [(''error'', JStr (error_log @ '' HTTP Error'')),
              (''status_code'', JInt (status_code resp)),
              (''details'', (case loads (body resp) of Some j \<Rightarrow> j | None \<Rightarrow> JStr (body resp)))]
      else None)"

subsection \<open>fetch_gpt_response_stream\<close>

text \<open>What one line makes the generator do: the items it yields, and whether it goes on
  (\<open>None\<close>), returns or raises. \<open>rnd (JInt timestamp)\<close> is the generator as the
  \<open>random.seed(timestamp)\<close> at the head of the function left it, from which \<open>random_str\<close>
  was drawn; \<open>entropy\<close> is what the operating system would give the emitter called for this
  line.\<close>

definition gpt_line ::
  "(json \<Rightarrow> nat \<Rightarrow> real) \<Rightarrow> (nat \<Rightarrow> real) \<Rightarrow> (string \<Rightarrow> json option) \<Rightarrow> int \<Rightarrow> string
     \<Rightarrow> event list \<times> outcome option" where
  "gpt_line rnd entropy loads timestamp line =
     (if line \<noteq> [] \<and> line \<noteq> ''data: '' \<and> line \<noteq> ''data:'' \<and> \<not> starts_with line '': '' then
        let result = lstrip_chars ''data: '' line
        in if py_strip result = ''[DONE]'' then ([EStr done_line], Some Finished)
           else
             (case loads result of
                None \<Rightarrow> ([], Some (Raised JSONDecodeError))
              | Some parsed \<Rightarrow>
                  (case py_setitem parsed ''id'' (JStr (chat_id (rnd (JInt timestamp)))) of
                     Inl e \<Rightarrow> ([], Some (Raised e))
                   | Inr line' \<Rightarrow>
                       let no_stream_content =
                             safe_get line' [Key ''choices'', Idx 0, Key ''message'', Key ''content''] JNull
                       in if truthy no_stream_content then
                            (case generate_sse_response rnd entropy
                                    (safe_get line' [Key ''created''] JNull)
                                    (safe_get line' [Key ''model''] JNull) no_stream_content
                                    JNull JNull JNull JNull (JInt 0) (JInt 0) (JInt 0) of
                               Inl e \<Rightarrow> ([], Some (Raised e))
                             | Inr sse_string \<Rightarrow> ([EStr sse_string], None))
                          else ([EStr (''data: '' @ py_strip (dumps True line') @ end_of_line)], None)))
      else ([], None))"

text \<open>The lines in order; \<open>entropies i\<close> belongs to the \<open>i\<close>-th of them.\<close>

fun gpt_lines ::
  "(json \<Rightarrow> nat \<Rightarrow> real) \<Rightarrow> (nat \<Rightarrow> nat \<Rightarrow> real) \<Rightarrow> (string \<Rightarrow> json option) \<Rightarrow> int
     \<Rightarrow> string list \<Rightarrow> event list \<times> outcome option" where
  "gpt_lines rnd entropies loads timestamp [] = ([], None)"
| "gpt_lines rnd entropies loads timestamp (line # rest) =
     (case gpt_line rnd (entropies 0) loads timestamp line of
        (evs, Some oc) \<Rightarrow> (evs, Some oc)
      | (evs, None) \<Rightarrow>
          (case gpt_lines rnd (\<lambda>i. entropies (Suc i)) loads timestamp rest of
             (evs', st) \<Rightarrow> (evs @ evs', st)))"

fun gpt_chunks ::
  "(json \<Rightarrow> nat \<Rightarrow> real) \<Rightarrow> (nat \<Rightarrow> nat \<Rightarrow> real) \<Rightarrow> (string \<Rightarrow> json option) \<Rightarrow> int
     \<Rightarrow> string \<Rightarrow> string list \<Rightarrow> event list \<times> outcome" where
  "gpt_chunks rnd entropies loads timestamp buffer [] = ([], Finished)"
| "gpt_chunks rnd entropies loads timestamp buffer (chunk # rest) =
     (case split_lines (buffer @ chunk) of
        (ls, buffer') \<Rightarrow>
          (case gpt_lines rnd entropies loads timestamp ls of
             (evs, Some oc) \<Rightarrow> (evs, oc)
           | (evs, None) \<Rightarrow>
               (case gpt_chunks rnd (\<lambda>i. entropies (length ls + i)) loads timestamp buffer' rest of
                  (evs', oc) \<Rightarrow> (evs @ evs', oc))))"

definition fetch_gpt_response_stream ::
  "(json \<Rightarrow> nat \<Rightarrow> real) \<Rightarrow> (nat \<Rightarrow> nat \<Rightarrow> real) \<Rightarrow> (string \<Rightarrow> json option) \<Rightarrow> int
     \<Rightarrow> response \<Rightarrow> event list \<times> outcome" where
  "fetch_gpt_response_stream rnd entropies loads timestamp resp =
     (case check_response loads resp ''fetch_gpt_response_stream'' of
        Some error_message \<Rightarrow> ([EDict error_message], Finished)
      | None \<Rightarrow> gpt_chunks rnd entropies loads timestamp [] (chunks resp))"

subsection \<open>fetch_claude_response_stream\<close>

text \<open>The emitter call of an adapter: the line is yielded, a TypeError of the emitter ends
  the generator.\<close>

definition yield_sse :: "py_error + string \<Rightarrow> event list \<times> py_error option" where
  "yield_sse r = (case r of Inl e \<Rightarrow> ([], Some e) | Inr sse_string \<Rightarrow> ([EStr sse_string], None))"

text \<open>\<open>message = resp.get("message")\<close> and what follows from it: the role announcement and
  the remembered \<open>input_tokens\<close>.\<close>

definition claude_message ::
  "(json \<Rightarrow> nat \<Rightarrow> real) \<Rightarrow> (nat \<Rightarrow> real) \<Rightarrow> int \<Rightarrow> json \<Rightarrow> json \<Rightarrow> (string \<times> json) list
     \<Rightarrow> event list \<times> json \<times> py_error option" where
  "claude_message rnd entropy timestamp model input_tokens resp =
     (let message = get_default resp ''message'' JNull
      in if truthy message then
           (case py_get message ''role'' JNull of
              Inl e \<Rightarrow> ([], input_tokens, Some e)
            | Inr role \<Rightarrow>
                (case (if truthy role
                       then yield_sse (generate_sse_response rnd entropy (JInt timestamp) model JNull JNull
                                         JNull JNull role (JInt 0) (JInt 0) (JInt 0))
                       else ([], None)) of
                   (evs, Some e) \<Rightarrow> (evs, input_tokens, Some e)
                 | (evs, None) \<Rightarrow>
                     (case py_get message ''usage'' JNull of
                        Inl e \<Rightarrow> (evs, input_tokens, Some e)
                      | Inr tokens_use \<Rightarrow>
                          if truthy tokens_use then
                            (case py_get tokens_use ''input_tokens'' (JInt 0) of
                               Inl e \<Rightarrow> (evs, input_tokens, Some e)
                             | Inr input_tokens' \<Rightarrow> (evs, input_tokens', None))
                          else (evs, input_tokens, None))))
         else ([], input_tokens, None))"

definition claude_usage ::
  "(json \<Rightarrow> nat \<Rightarrow> real) \<Rightarrow> (nat \<Rightarrow> real) \<Rightarrow> int \<Rightarrow> json \<Rightarrow> json \<Rightarrow> (string \<times> json) list
     \<Rightarrow> event list \<times> py_error option" where
  "claude_usage rnd entropy timestamp model input_tokens resp =
     (let usage = get_default resp ''usage'' JNull
      in if truthy usage then
           (case py_get usage ''output_tokens'' (JInt 0) of
              Inl e \<Rightarrow> ([], Some e)
            | Inr output_tokens \<Rightarrow>
                (case py_add input_tokens output_tokens of
                   Inl e \<Rightarrow> ([], Some e)
                 | Inr total_tokens \<Rightarrow>
                     yield_sse (generate_sse_response rnd entropy (JInt timestamp) model JNull JNull JNull
                                  JNull JNull total_tokens input_tokens output_tokens)))
         else ([], None))"

definition claude_tool_use ::
  "(json \<Rightarrow> nat \<Rightarrow> real) \<Rightarrow> (nat \<Rightarrow> real) \<Rightarrow> int \<Rightarrow> json \<Rightarrow> (string \<times> json) list
     \<Rightarrow> event list \<times> py_error option" where
  "claude_tool_use rnd entropy timestamp model resp =
     (let tool_use = get_default resp ''content_block'' JNull
      in if truthy tool_use then
           (case py_getitem tool_use ''type'' of
              Inl e \<Rightarrow> ([], Some e)
            | Inr ty \<Rightarrow>
                if ty = JStr ''tool_use'' then
                  (case py_getitem tool_use ''id'' of
                     Inl e \<Rightarrow> ([], Some e)
                   | Inr tools_id \<Rightarrow>
                       (case py_in ''name'' tool_use of
                          Inl e \<Rightarrow> ([], Some e)
                        | Inr has_name \<Rightarrow>
                            if has_name then
                              (case py_getitem tool_use ''name'' of
                                 Inl e \<Rightarrow> ([], Some e)
                               | Inr function_call_name \<Rightarrow>
                                   yield_sse (generate_sse_response rnd entropy (JInt timestamp) model JNull
                                                tools_id function_call_name JNull JNull
                                                (JInt 0) (JInt 0) (JInt 0)))
                            else ([], None)))
                else ([], None))
         else ([], None))"

definition claude_delta_field ::
  "string \<Rightarrow> (json \<Rightarrow> py_error + string) \<Rightarrow> json \<Rightarrow> event list \<times> py_error option" where
  "claude_delta_field k emit delta =
     (case py_in k delta of
        Inl e \<Rightarrow> ([], Some e)
      | Inr present \<Rightarrow>
          if present then
            (case py_getitem delta k of
               Inl e \<Rightarrow> ([], Some e)
             | Inr v \<Rightarrow> yield_sse (emit v))
          else ([], None))"

definition claude_delta ::
  "(json \<Rightarrow> nat \<Rightarrow> real) \<Rightarrow> (nat \<Rightarrow> real) \<Rightarrow> int \<Rightarrow> json \<Rightarrow> (string \<times> json) list
     \<Rightarrow> event list \<times> py_error option" where
  "claude_delta rnd entropy timestamp model resp =
     (let delta = get_default resp ''delta'' JNull
      in if \<not> truthy delta then ([], None)
         else
           (case claude_delta_field ''text''
                   (\<lambda>content. generate_sse_response rnd entropy (JInt timestamp) model content JNull JNull
                                 JNull JNull (JInt 0) (JInt 0) (JInt 0)) delta of
              (evs, Some e) \<Rightarrow> (evs, Some e)
            | (evs, None) \<Rightarrow>
                (case claude_delta_field ''partial_json''
                        (\<lambda>function_call_content.
                            generate_sse_response rnd entropy (JInt timestamp) model JNull JNull JNull
                              function_call_content JNull (JInt 0) (JInt 0) (JInt 0)) delta of
                   (evs', err) \<Rightarrow> (evs @ evs', err))))"

text \<open>One line: the items yielded, the new \<open>input_tokens\<close>, and the exception if one is raised.\<close>

definition claude_line ::
  "(json \<Rightarrow> nat \<Rightarrow> real) \<Rightarrow> (nat \<Rightarrow> real) \<Rightarrow> (string \<Rightarrow> json option) \<Rightarrow> int \<Rightarrow> json \<Rightarrow> json \<Rightarrow> string
     \<Rightarrow> event list \<times> json \<times> py_error option" where
  "claude_line rnd entropy loads timestamp model input_tokens line =
     (if starts_with line ''data:'' then
        (case loads (lstrip_chars ''data: '' line) of
           None \<Rightarrow> ([], input_tokens, Some JSONDecodeError)
         | Some (JObj resp) \<Rightarrow>
             (case claude_message rnd entropy timestamp model input_tokens resp of
                (evs1, input_tokens', Some e) \<Rightarrow> (evs1, input_tokens', Some e)
              | (evs1, input_tokens', None) \<Rightarrow>
                  (case claude_usage rnd entropy timestamp model input_tokens' resp of
                     (evs2, Some e) \<Rightarrow> (evs1 @ evs2, input_tokens', Some e)
                   | (evs2, None) \<Rightarrow>
                       (case claude_tool_use rnd entropy timestamp model resp of
                          (evs3, Some e) \<Rightarrow> (evs1 @ evs2 @ evs3, input_tokens', Some e)
                        | (evs3, None) \<Rightarrow>
                            (case claude_delta rnd entropy timestamp model resp of
                               (evs4, err) \<Rightarrow> (evs1 @ evs2 @ evs3 @ evs4, input_tokens', err)))))
         | Some _ \<Rightarrow> ([], input_tokens, Some AttributeError))
      else ([], input_tokens, None))"

fun claude_lines ::
  "(json \<Rightarrow> nat \<Rightarrow> real) \<Rightarrow> (nat \<Rightarrow> real) \<Rightarrow> (string \<Rightarrow> json option) \<Rightarrow> int \<Rightarrow> json \<Rightarrow> json \<Rightarrow> string list
     \<Rightarrow> event list \<times> json \<times> py_error option" where
  "claude_lines rnd entropy loads timestamp model input_tokens [] = ([], input_tokens, None)"
| "claude_lines rnd entropy loads timestamp model input_tokens (line # rest) =
     (case claude_line rnd entropy loads timestamp model input_tokens line of
        (evs, input_tokens', Some e) \<Rightarrow> (evs, input_tokens', Some e)
      | (evs, input_tokens', None) \<Rightarrow>
          (case claude_lines rnd entropy loads timestamp model input_tokens' rest of
             (evs', input_tokens'', err) \<Rightarrow> (evs @ evs', input_tokens'', err)))"

fun claude_chunks ::
  "(json \<Rightarrow> nat \<Rightarrow> real) \<Rightarrow> (nat \<Rightarrow> real) \<Rightarrow> (string \<Rightarrow> json option) \<Rightarrow> int \<Rightarrow> json \<Rightarrow> json \<Rightarrow> string
     \<Rightarrow> string list \<Rightarrow> event list \<times> outcome" where
  "claude_chunks rnd entropy loads timestamp model input_tokens buffer [] =
     ([EStr done_line], Finished)"
| "claude_chunks rnd entropy loads timestamp model input_tokens buffer (chunk # rest) =
     (case split_lines (buffer @ chunk) of
        (ls, buffer') \<Rightarrow>
          (case claude_lines rnd entropy loads timestamp model input_tokens ls of
             (evs, input_tokens', Some e) \<Rightarrow> (evs, Raised e)
           | (evs, input_tokens', None) \<Rightarrow>
               (case claude_chunks rnd entropy loads timestamp model input_tokens' buffer' rest of
                  (evs', oc) \<Rightarrow> (evs @ evs', oc))))"

definition fetch_claude_response_stream ::
  "(json \<Rightarrow> nat \<Rightarrow> real) \<Rightarrow> (nat \<Rightarrow> real) \<Rightarrow> (string \<Rightarrow> json option) \<Rightarrow> int \<Rightarrow> json \<Rightarrow> response
     \<Rightarrow> event list \<times> outcome" where
  "fetch_claude_response_stream rnd entropy loads timestamp model resp =
     (case check_response loads resp ''fetch_claude_response_stream'' of
        Some error_message \<Rightarrow> ([EDict error_message], Finished)
      | None \<Rightarrow> claude_chunks rnd entropy loads timestamp model (JInt 0) [] (chunks resp))"

subsection \<open>fetch_gemini_response_stream\<close>

definition finish_trigger :: string where
  "finish_trigger = [dq] @ ''finishReason'' @ [dq] @ '': '' @ [dq]"

definition text_trigger :: string where
  "text_trigger = [dq] @ ''text'' @ [dq] @ '': '' @ [dq]"

definition function_call_trigger :: string where
  "function_call_trigger = [dq] @ ''functionCall'' @ [dq] @ '': {''"

record gemini_state =
  revicing_function_call :: bool
  function_full_response :: string
  need_function_call :: bool
  is_finish :: bool

text \<open>The \<open>"text": "\<close> branch of a line; a JSONDecodeError is caught and logged.\<close>

definition gemini_text ::
  "(json \<Rightarrow> nat \<Rightarrow> real) \<Rightarrow> (nat \<Rightarrow> real) \<Rightarrow> (string \<Rightarrow> json option) \<Rightarrow> int \<Rightarrow> json \<Rightarrow> string
     \<Rightarrow> event list \<times> py_error option" where
  "gemini_text rnd entropy loads timestamp model line =
     (if line \<noteq> [] \<and> contains line text_trigger then
        (case loads (''{'' @ line @ ''}'') of
           None \<Rightarrow> ([], None)
         | Some json_data \<Rightarrow>
             (case py_get json_data ''text'' (JStr []) of
                Inl e \<Rightarrow> ([], Some e)
              | Inr (JStr content) \<Rightarrow>
                  yield_sse (generate_sse_response rnd entropy (JInt timestamp) model
                               (JStr (unescape_newlines content)) JNull JNull JNull JNull
                               (JInt 0) (JInt 0) (JInt 0))
              | Inr _ \<Rightarrow> ([], Some AttributeError)))
      else ([], None))"

text \<open>The function-call accumulation at the end of the loop body.\<close>

definition gemini_accumulate :: "gemini_state \<Rightarrow> string \<Rightarrow> gemini_state" where
  "gemini_accumulate st line =
     (if line \<noteq> [] \<and> (contains line function_call_trigger \<or> revicing_function_call st) then
        if contains line '']''
        then st\<lparr>revicing_function_call := False, need_function_call := True\<rparr>
        else st\<lparr>revicing_function_call := True, need_function_call := True,
                function_full_response := function_full_response st @ line\<rparr>
      else st)"

text \<open>The lines of one chunk, until the list ends, the finish line breaks the loop, or an
  exception is raised.\<close>

fun gemini_lines ::
  "(json \<Rightarrow> nat \<Rightarrow> real) \<Rightarrow> (nat \<Rightarrow> real) \<Rightarrow> (string \<Rightarrow> json option) \<Rightarrow> int \<Rightarrow> json \<Rightarrow> gemini_state
     \<Rightarrow> string list \<Rightarrow> event list \<times> gemini_state \<times> py_error option" where
  "gemini_lines rnd entropy loads timestamp model st [] = ([], st, None)"
| "gemini_lines rnd entropy loads timestamp model st (line # rest) =
     (if line \<noteq> [] \<and> contains line finish_trigger then ([], st\<lparr>is_finish := True\<rparr>, None)
      else
        (case gemini_text rnd entropy loads timestamp model line of
           (evs, Some e) \<Rightarrow> (evs, st, Some e)
         | (evs, None) \<Rightarrow>
             (case gemini_lines rnd entropy loads timestamp model (gemini_accumulate st line) rest of
                (evs', st', err) \<Rightarrow> (evs @ evs', st', err))))"

text \<open>What follows the chunk loop: the two tool-call items if a function call was seen, and
  the terminator.\<close>

definition gemini_finish ::
  "(json \<Rightarrow> nat \<Rightarrow> real) \<Rightarrow> (nat \<Rightarrow> real) \<Rightarrow> (string \<Rightarrow> json option) \<Rightarrow> int \<Rightarrow> json \<Rightarrow> gemini_state
     \<Rightarrow> event list \<times> outcome" where
  "gemini_finish rnd entropy loads timestamp model st =
     (if need_function_call st then
        (case loads (function_full_response st) of
           None \<Rightarrow> ([], Raised JSONDecodeError)
         | Some function_call \<Rightarrow>
             (case py_getitem function_call ''functionCall'' of
                Inl e \<Rightarrow> ([], Raised e)
              | Inr fc \<Rightarrow>
                  (case py_getitem fc ''name'' of
                     Inl e \<Rightarrow> ([], Raised e)
                   | Inr function_call_name \<Rightarrow>
                       (case yield_sse (generate_sse_response rnd entropy (JInt timestamp) model JNull
                                 (JStr ''chatcmpl-9inWv0yEtgn873CxMBzHeCeiHctTV'')
                                 function_call_name JNull JNull (JInt 0) (JInt 0) (JInt 0)) of
                          (evs1, Some e) \<Rightarrow> (evs1, Raised e)
                        | (evs1, None) \<Rightarrow>
                            (case py_getitem fc ''args'' of
                               Inl e \<Rightarrow> (evs1, Raised e)
                             | Inr args \<Rightarrow>
                                 (case yield_sse (generate_sse_response rnd entropy (JInt timestamp) model
                                           JNull (JStr ''chatcmpl-9inWv0yEtgn873CxMBzHeCeiHctTV'')
                                           JNull (JStr (dumps True args)) JNull
                                           (JInt 0) (JInt 0) (JInt 0)) of
                                    (evs2, Some e) \<Rightarrow> (evs1 @ evs2, Raised e)
                                  | (evs2, None) \<Rightarrow>
                                      (evs1 @ evs2 @ [EStr done_line], Finished)))))))
      else ([EStr done_line], Finished))"

fun gemini_chunks ::
  "(json \<Rightarrow> nat \<Rightarrow> real) \<Rightarrow> (nat \<Rightarrow> real) \<Rightarrow> (string \<Rightarrow> json option) \<Rightarrow> int \<Rightarrow> json \<Rightarrow> gemini_state
     \<Rightarrow> string \<Rightarrow> string list \<Rightarrow> event list \<times> outcome" where
  "gemini_chunks rnd entropy loads timestamp model st buffer [] =
     gemini_finish rnd entropy loads timestamp model st"
| "gemini_chunks rnd entropy loads timestamp model st buffer (chunk # rest) =
     (case split_lines (buffer @ chunk) of
        (ls, buffer') \<Rightarrow>
          (case gemini_lines rnd entropy loads timestamp model st ls of
             (evs, st', Some e) \<Rightarrow> (evs, Raised e)
           | (evs, st', None) \<Rightarrow>
               (case (if is_finish st' then gemini_finish rnd entropy loads timestamp model st'
                      else gemini_chunks rnd entropy loads timestamp model st' buffer' rest) of
                  (evs', oc) \<Rightarrow> (evs @ evs', oc))))"

definition fetch_gemini_response_stream ::
  "(json \<Rightarrow> nat \<Rightarrow> real) \<Rightarrow> (nat \<Rightarrow> real) \<Rightarrow> (string \<Rightarrow> json option) \<Rightarrow> int \<Rightarrow> json \<Rightarrow> response
     \<Rightarrow> event list \<times> outcome" where
  "fetch_gemini_response_stream rnd entropy loads timestamp model resp =
     (case check_response loads resp ''fetch_gemini_response_stream'' of
        Some error_message \<Rightarrow> ([EDict error_message], Finished)
      | None \<Rightarrow>
          gemini_chunks rnd entropy loads timestamp model
            \<lparr>revicing_function_call = False, function_full_response = ''{'',
             need_function_call = False, is_finish = False\<rparr> [] (chunks resp))"

section \<open>First-chunk inspection (utils.py)\<close>

definition identify_audio_format :: "string \<Rightarrow> string" where
  "identify_audio_format file_bytes =
     (if starts_with file_bytes [CHR 0xFF, CHR 0xFB] \<or> starts_with file_bytes [CHR 0xFF, CHR 0xF3]
        then ''MP3''
      else if starts_with file_bytes ''ID3'' then ''MP3 with ID3''
      else if starts_with file_bytes ''OpusHead'' then ''OPUS''
      else if starts_with file_bytes ''ADIF'' then ''AAC (ADIF)''
      else if starts_with file_bytes [CHR 0xFF, CHR 0xF1] \<or> starts_with file_bytes [CHR 0xFF, CHR 0xF9]
        then ''AAC (ADTS)''
      else if starts_with file_bytes ''fLaC'' then ''FLAC''
      else if starts_with file_bytes ''RIFF'' \<and> take 4 (drop 8 file_bytes) = ''WAVE'' then ''WAV''
      else ''Unknown/PCM'')"

text \<open>Equality with the dict \<open>{"message": "", "type": "", "param": "", "code": None}\<close>.\<close>

definition is_placeholder_error :: "json \<Rightarrow> bool" where
  "is_placeholder_error v =
     (case v of
        JObj kvs \<Rightarrow>
          fst ` set kvs = {''message'', ''type'', ''param'', ''code''} \<and>
          map_of kvs ''message'' = Some (JStr []) \<and> map_of kvs ''type'' = Some (JStr []) \<and>
          map_of kvs ''param'' = Some (JStr []) \<and> map_of kvs ''code'' = Some JNull
      | _ \<Rightarrow> False)"

text \<open>
  \<open>f"{detail}"\<close>: a string is itself, any other value is formatted by \<open>str\<close>, which is a
  parameter (\<open>py_str\<close>).
\<close>

definition format_value :: "(json \<Rightarrow> string) \<Rightarrow> json \<Rightarrow> string" where
  "format_value py_str v = (case v of JStr s \<Rightarrow> s | _ \<Rightarrow> py_str v)"

datatype checked = CBytes string | CStr string | CJson json

text \<open>The part of \<open>check_response_content\<close> under \<open>isinstance(content, dict)\<close>: the exception
  it raises, if any.\<close>

definition check_dict ::
  "(json \<Rightarrow> string) \<Rightarrow> string \<Rightarrow> bool \<Rightarrow> string list \<Rightarrow> (string \<times> json) list \<Rightarrow> py_error option" where
  "check_dict py_str engine stream error_triggers content =
     (if ''error'' \<in> fst ` set content \<and>
         \<not> is_placeholder_error (get_default content ''error'' JNull) then
        let status_code = get_default content ''status_code'' (JInt 500);
            detail = get_default content ''details'' (JStr (py_str (JObj content)))
        in Some (HTTPException status_code (take 300 (format_value py_str detail)))
      else if engine \<notin> set [''tts'', ''embedding'', ''dalle'', ''moderation'', ''whisper'']
              \<and> stream = False then
        if list_ex (\<lambda>x. contains (py_str (JObj content)) x) error_triggers
        then Some StopAsyncIteration
        else
          let message_content =
                safe_get (JObj content) [Key ''choices'', Idx 0, Key ''message'', Key ''content''] JNull
          in if message_content = JStr [] \<or> message_content = JNull
             then Some StopAsyncIteration else None
      else None)"

text \<open>The part under \<open>isinstance(content, str)\<close>, followed by the dict check when the string
  decodes to a dict. \<open>unicode_escape s = None\<close> stands for UnicodeDecodeError.\<close>

definition check_str ::
  "(string \<Rightarrow> json option) \<Rightarrow> (string \<Rightarrow> string option) \<Rightarrow> (json \<Rightarrow> string) \<Rightarrow> string \<Rightarrow> bool
     \<Rightarrow> string list \<Rightarrow> string \<Rightarrow> py_error + (checked \<times> bool)" where
  "check_str loads unicode_escape py_str engine stream error_triggers content0 =
     (let content = (if starts_with content0 ''data:'' then lstrip_chars ''data: '' content0
                     else content0)
      in if starts_with content ''[DONE]'' then Inl StopAsyncIteration
         else
           let encode_content =
                 (case unicode_escape content of Some s \<Rightarrow> s | None \<Rightarrow> content)
           in if list_ex (\<lambda>x. contains encode_content x) error_triggers
              then Inl StopAsyncIteration
              else
                (case loads content of
                   None \<Rightarrow>
                     if \<not> contains content ''uni-api-heartbeat'' then Inl StopAsyncIteration
                     else Inr (CStr content, False)
                 | Some (JObj d) \<Rightarrow>
                     (case check_dict py_str engine stream error_triggers d of
                        Some e \<Rightarrow> Inl e
                      | None \<Rightarrow> Inr (CJson (JObj d), False))
                 | Some v \<Rightarrow> Inr (CJson v, False)))"

definition audio_formats :: "string list" where
  "audio_formats = [''MP3'', ''MP3 with ID3'', ''OPUS'', ''AAC (ADIF)'', ''AAC (ADTS)'', ''FLAC'', ''WAV'']"

text \<open>\<open>decode_utf8 b = None\<close> stands for the UnicodeDecodeError of \<open>content.decode("utf-8")\<close>.\<close>

definition check_response_content ::
  "(string \<Rightarrow> json option) \<Rightarrow> (string \<Rightarrow> string option) \<Rightarrow> (string \<Rightarrow> string option)
     \<Rightarrow> (json \<Rightarrow> string) \<Rightarrow> event \<Rightarrow> string \<Rightarrow> bool \<Rightarrow> string list
     \<Rightarrow> py_error + (checked \<times> bool)" where
  "check_response_content loads unicode_escape decode_utf8 py_str content engine stream
       error_triggers =
     (case content of
        EBytes b \<Rightarrow>
          if identify_audio_format b \<in> set audio_formats then Inr (CBytes b, True)
          else
            (case decode_utf8 b of
               None \<Rightarrow> Inl UnicodeDecodeError
             | Some s \<Rightarrow> check_str loads unicode_escape py_str engine stream error_triggers s)
      | EStr s \<Rightarrow> check_str loads unicode_escape py_str engine stream error_triggers s
      | EDict d \<Rightarrow>
          (case check_dict py_str engine stream error_triggers d of
             Some e \<Rightarrow> Inl e
           | None \<Rightarrow> Inr (CJson (JObj d), False)))"

definition ensure_string :: "(string \<Rightarrow> string option) \<Rightarrow> event \<Rightarrow> py_error + string" where
  "ensure_string decode_utf8 item =
     (case item of
        EBytes b \<Rightarrow> (case decode_utf8 b of None \<Rightarrow> Inl UnicodeDecodeError | Some s \<Rightarrow> Inr s)
      | EStr s \<Rightarrow> Inr s
      | EDict d \<Rightarrow> Inr (''data: '' @ dumps True (JObj d) @ [CHR 0x0A, CHR 0x0A]))"

text \<open>\<open>str(item).startswith(": uni-api-heartbeat")\<close>: the \<open>str\<close> of bytes starts with \<open>b\<close>, that
  of a dict with a brace.\<close>

definition is_heartbeat :: "event \<Rightarrow> bool" where
  "is_heartbeat item = (case item of EStr s \<Rightarrow> starts_with s '': uni-api-heartbeat'' | _ \<Rightarrow> False)"

text \<open>
  What \<open>error_handling_wrapper\<close> hands back when it does not raise: the audio content, or a
  new generator. \<open>Deferred first rest\<close> is the generator of the heartbeat case, which yields
  \<open>first\<close> and inspects the first real item of \<open>rest\<close> only when it is consumed;
  \<open>Checked items\<close> is the generator that re-yields the inspected first item and the rest.
  The measured time to the first item is left out.
\<close>

datatype wrapped = Audio checked | Deferred event "event list" | Checked "event list"

definition error_handling_wrapper ::
  "(string \<Rightarrow> json option) \<Rightarrow> (string \<Rightarrow> string option) \<Rightarrow> (string \<Rightarrow> string option)
     \<Rightarrow> (json \<Rightarrow> string) \<Rightarrow> event list \<Rightarrow> string \<Rightarrow> bool \<Rightarrow> string list
     \<Rightarrow> py_error + wrapped" where
  "error_handling_wrapper loads unicode_escape decode_utf8 py_str generator engine stream
       error_triggers =
     (case generator of
        [] \<Rightarrow> Inl (HTTPException (JInt 400) ''data: {'error': 'No data returned'}'')
      | first_item # rest \<Rightarrow>
          if is_heartbeat first_item then Inr (Deferred first_item rest)
          else
            (case check_response_content loads unicode_escape decode_utf8 py_str first_item
                    engine stream error_triggers of
               Inl e \<Rightarrow>
                 if e = StopAsyncIteration
                 then Inl (HTTPException (JInt 400) ''data: {'error': 'No data returned'}'')
                 else Inl e
             | Inr (checked_content, is_audio) \<Rightarrow>
                 if is_audio then Inr (Audio checked_content)
                 else Inr (Checked (first_item # rest))))"

section \<open>Properties of the emitter, stated\<close>



text \<open>A generator whose \<open>random()\<close> is always 1/2 (it draws the letter F), and an operating
  system whose entropy makes it always 0.\<close>

definition half_rnd :: "json \<Rightarrow> nat \<Rightarrow> real" where
  "half_rnd seed i = 1 / 2"

definition zero_entropy :: "nat \<Rightarrow> real" where
  "zero_entropy i = 0"

text \<open>The lines of the examples, as the emitter writes them.\<close>

definition role_line :: string where
  "role_line =
     ''data: {'' @ [dq] @ ''id'' @ [dq] @ '': '' @ [dq]
     @ ''chatcmpl-FFFFFFFFFFFFFFFFFFFFFFFFFFFFF'' @ [dq] @ '', '' @ [dq] @ ''object'' @ [dq]
     @ '': '' @ [dq] @ ''chat.completion.chunk'' @ [dq] @ '', '' @ [dq] @ ''created'' @ [dq]
     @ '': 1700000000, '' @ [dq] @ ''model'' @ [dq] @ '': '' @ [dq] @ ''m'' @ [dq] @ '', ''
     @ [dq] @ ''choices'' @ [dq] @ '': [{'' @ [dq] @ ''index'' @ [dq] @ '': 0, '' @ [dq]
     @ ''delta'' @ [dq] @ '': {'' @ [dq] @ ''role'' @ [dq] @ '': '' @ [dq] @ ''assistant''
     @ [dq] @ '', '' @ [dq] @ ''content'' @ [dq] @ '': '' @ [dq] @ [dq] @ ''}, '' @ [dq]
     @ ''logprobs'' @ [dq] @ '': null, '' @ [dq] @ ''finish_reason'' @ [dq] @ '': '' @ [dq]
     @ ''stop'' @ [dq] @ ''}], '' @ [dq] @ ''usage'' @ [dq] @ '': null, '' @ [dq]
     @ ''system_fingerprint'' @ [dq] @ '': '' @ [dq] @ ''fp_d576307f90'' @ [dq] @ ''}''
     @ [CHR 0x0A, CHR 0x0A]"

definition hi_line :: string where
  "hi_line =
     ''data: {'' @ [dq] @ ''id'' @ [dq] @ '': '' @ [dq]
     @ ''chatcmpl-FFFFFFFFFFFFFFFFFFFFFFFFFFFFF'' @ [dq] @ '', '' @ [dq] @ ''object'' @ [dq]
     @ '': '' @ [dq] @ ''chat.completion.chunk'' @ [dq] @ '', '' @ [dq] @ ''created'' @ [dq]
     @ '': 1700000000, '' @ [dq] @ ''model'' @ [dq] @ '': '' @ [dq] @ ''m'' @ [dq] @ '', ''
     @ [dq] @ ''choices'' @ [dq] @ '': [{'' @ [dq] @ ''index'' @ [dq] @ '': 0, '' @ [dq]
     @ ''delta'' @ [dq] @ '': {'' @ [dq] @ ''content'' @ [dq] @ '': '' @ [dq] @ ''Hi'' @ [dq]
     @ ''}, '' @ [dq] @ ''logprobs'' @ [dq] @ '': null, '' @ [dq] @ ''finish_reason'' @ [dq]
     @ '': null}], '' @ [dq] @ ''usage'' @ [dq] @ '': null, '' @ [dq]
     @ ''system_fingerprint'' @ [dq] @ '': '' @ [dq] @ ''fp_d576307f90'' @ [dq] @ ''}''
     @ [CHR 0x0A, CHR 0x0A]"

definition usage_line :: string where
  "usage_line =
     ''data: {'' @ [dq] @ ''id'' @ [dq] @ '': '' @ [dq]
     @ ''chatcmpl-FFFFFFFFFFFFFFFFFFFFFFFFFFFFF'' @ [dq] @ '', '' @ [dq] @ ''object'' @ [dq]
     @ '': '' @ [dq] @ ''chat.completion.chunk'' @ [dq] @ '', '' @ [dq] @ ''created'' @ [dq]
     @ '': 1700000000, '' @ [dq] @ ''model'' @ [dq] @ '': '' @ [dq] @ ''m'' @ [dq] @ '', ''
     @ [dq] @ ''choices'' @ [dq] @ '': [], '' @ [dq] @ ''usage'' @ [dq] @ '': {'' @ [dq]
     @ ''prompt_tokens'' @ [dq] @ '': 3, '' @ [dq] @ ''completion_tokens'' @ [dq] @ '': 4, ''
     @ [dq] @ ''total_tokens'' @ [dq] @ '': 7}, '' @ [dq] @ ''system_fingerprint'' @ [dq]
     @ '': '' @ [dq] @ ''fp_d576307f90'' @ [dq] @ ''}'' @ [CHR 0x0A, CHR 0x0A]"


section \<open>Properties of the pool, stated\<close>





text \<open>A clock that stands still during one call of \<open>next\<close>, and three pools: one credential
  with 1 request per 60 seconds under the key "default", the same under the pattern "def", and
  a pool without credentials.\<close>

definition const_clock :: "real \<Rightarrow> nat \<Rightarrow> real" where
  "const_clock t k = t"

definition pool_one_default :: pool where
  "pool_one_default = ThreadSafeCircularList id [''k''] [(''default'', [(1, 60)])] ''round_robin''"


definition pool_empty :: pool where
  "pool_empty = ThreadSafeCircularList id [] [(''default'', [(999999, 60)])] ''round_robin''"

section \<open>Properties of the adapters, stated\<close>

text \<open>The terminator does not occur, and: it occurs exactly once, as the last item.\<close>

definition no_done :: "event list \<Rightarrow> bool" where
  "no_done evs = (EStr done_line \<notin> set evs)"

definition ends_with_single_done :: "event list \<Rightarrow> bool" where
  "ends_with_single_done evs =
     (evs \<noteq> [] \<and> last evs = EStr done_line \<and> count_list evs (EStr done_line) = 1)"

text \<open>The upstream lines that the OpenAI-compatible adapter takes for the terminator: not
  skipped, and \<open>[DONE]\<close> once the characters of \<open>"data: "\<close> are stripped on the left and the
  whitespace on both sides.\<close>

definition is_done_line :: "string \<Rightarrow> bool" where
  "is_done_line line =
     (line \<noteq> [] \<and> line \<noteq> ''data: '' \<and> line \<noteq> ''data:'' \<and> \<not> starts_with line '': '' \<and>
      py_strip (lstrip_chars ''data: '' line) = ''[DONE]'')"

text \<open>All complete lines of the upstream text, whatever the chunking.\<close>

definition upstream_lines :: "response \<Rightarrow> string list" where
  "upstream_lines resp = fst (split_lines (concat (chunks resp)))"

text \<open>What follows the lines of the Gemini adapter: an exception ends the run, otherwise the
  code after the chunk loop runs.\<close>

definition gemini_end ::
  "(json \<Rightarrow> nat \<Rightarrow> real) \<Rightarrow> (nat \<Rightarrow> real) \<Rightarrow> (string \<Rightarrow> json option) \<Rightarrow> int \<Rightarrow> json
     \<Rightarrow> event list \<times> gemini_state \<times> py_error option \<Rightarrow> event list \<times> outcome" where
  "gemini_end rnd entropy loads timestamp model r =
     (case r of
        (evs, st, Some e) \<Rightarrow> (evs, Raised e)
      | (evs, st, None) \<Rightarrow>
          (case gemini_finish rnd entropy loads timestamp model st of
             (evs', oc) \<Rightarrow> (evs @ evs', oc)))"

text \<open>Upstream lines of the Gemini scenarios and error objects of the first-chunk scenarios.\<close>

definition hello_field :: string where
  "hello_field = [dq] @ ''text'' @ [dq] @ '': '' @ [dq] @ ''hello'' @ [bsl, bsl] @ ''nworld'' @ [dq]"

definition late_field :: string where
  "late_field = [dq] @ ''text'' @ [dq] @ '': '' @ [dq] @ ''late'' @ [dq]"

definition compact_finish_field :: string where
  "compact_finish_field = [dq] @ ''finishReason'' @ [dq] @ '':'' @ [dq] @ ''STOP'' @ [dq]"

definition pretty_finish_field :: string where
  "pretty_finish_field = [dq] @ ''finishReason'' @ [dq] @ '': '' @ [dq] @ ''STOP'' @ [dq]"

definition error_null :: "(string \<times> json) list" where
  "error_null = [(''error'', JNull), (''details'', JStr ''no error'')]"

definition error_bad :: "(string \<times> json) list" where
  "error_bad = [(''error'', JStr ''bad''), (''status_code'', JInt 503), (''details'', JStr ''bad gateway'')]"

definition error_bad_text :: string where
  "error_bad_text =
     ''{'' @ [dq] @ ''error'' @ [dq] @ '': '' @ [dq] @ ''bad'' @ [dq] @ '', '' @
     [dq] @ ''status_code'' @ [dq] @ '': 503, '' @
     [dq] @ ''details'' @ [dq] @ '': '' @ [dq] @ ''bad gateway'' @ [dq] @ ''}''"

definition error_placeholder :: "(string \<times> json) list" where
  "error_placeholder =
     [(''error'', JObj [(''message'', JStr []), (''type'', JStr []), (''param'', JStr []),
                        (''code'', JNull)]),
      (''choices'', JArr [JObj [(''message'', JObj [(''content'', JStr ''Hi'')])]])]"

text \<open>The values of \<open>json.loads\<close> on the texts the examples decode; every other text is
  treated as undecodable.\<close>

definition demo_loads :: "string \<Rightarrow> json option" where
  "demo_loads s =
     (if s = ''{'' @ hello_field @ ''}''
        then Some (JObj [(''text'', JStr (''hello'' @ [bsl] @ ''nworld''))])
      else if s = ''{'' @ late_field @ ''}'' then Some (JObj [(''text'', JStr ''late'')])
      else if s = ''{}'' then Some (JObj [])
      else if s = error_bad_text then Some (JObj error_bad)
      else None)"

text \<open>The state of the Gemini adapter before the first chunk.\<close>

definition gemini_start :: gemini_state where
  "gemini_start = \<lparr>revicing_function_call = False, function_full_response = ''{'',
                    need_function_call = False, is_finish = False\<rparr>"

text \<open>The chunk a text delta is emitted as.\<close>

definition text_delta_chunk :: "(json \<Rightarrow> nat \<Rightarrow> real) \<Rightarrow> int \<Rightarrow> json \<Rightarrow> string \<Rightarrow> json" where
  "text_delta_chunk rnd timestamp model content =
     JObj [(''id'', JStr (chat_id (rnd (JInt timestamp)))),
           (''object'', JStr ''chat.completion.chunk''),
           (''created'', JInt timestamp),
           (''model'', model),
           (''choices'', JArr [JObj [(''index'', JInt 0),
                                    (''delta'', JObj [(''content'', JStr content)]),
                                    (''logprobs'', JNull), (''finish_reason'', JNull)]]),
           (''usage'', JNull),
           (''system_fingerprint'', JStr ''fp_d576307f90'')]"

text \<open>Upstream responses with status 200. The first sends the text line in two pieces, then
  a finish line and a further text line; the second has the finish field without the space.\<close>

definition resp_split :: response where
  "resp_split =
     \<lparr>status_code = 200, body = [],
      chunks = [[dq] @ ''text'' @ [dq] @ '': '' @ [dq] @ ''hel'',
                ''lo'' @ [bsl, bsl] @ ''nworld'' @ [dq, CHR 0x0A] @ pretty_finish_field,
                [CHR 0x0A] @ late_field @ [CHR 0x0A]]\<rparr>"

definition resp_compact_finish :: response where
  "resp_compact_finish =
     \<lparr>status_code = 200, body = [],
      chunks = [compact_finish_field @ [CHR 0x0A] @ late_field @ [CHR 0x0A]]\<rparr>"

definition resp_hello :: response where
  "resp_hello = \<lparr>status_code = 200, body = [], chunks = [hello_field @ [CHR 0x0A]]\<rparr>"

definition resp_done :: response where
  "resp_done = \<lparr>status_code = 200, body = [], chunks = [''data: [DONE]'' @ [CHR 0x0A]]\<rparr>"

definition resp_no_done :: response where
  "resp_no_done = \<lparr>status_code = 200, body = [], chunks = [''data: {}'' @ [CHR 0x0A]]\<rparr>"

text \<open>A line that is not JSON.\<close>

definition resp_malformed :: response where
  "resp_malformed = \<lparr>status_code = 200, body = [], chunks = [''data: oops'' @ [CHR 0x0A]]\<rparr>"

text \<open>An upstream object in the non-streaming shape, after an object without content.\<close>

definition message_text :: string where
  "message_text =
     ''{'' @ [dq] @ ''created'' @ [dq] @ '': 5, '' @ [dq] @ ''model'' @ [dq] @ '': '' @ [dq]
     @ ''m'' @ [dq] @ '', '' @ [dq] @ ''choices'' @ [dq] @ '': [{'' @ [dq] @ ''message''
     @ [dq] @ '': {'' @ [dq] @ ''content'' @ [dq] @ '': '' @ [dq] @ ''Hi'' @ [dq] @ ''}}]}''"

definition resp_message :: response where
  "resp_message =
     \<lparr>status_code = 200, body = [],
      chunks = [''data: {}'' @ [CHR 0x0A] @ ''data: '' @ message_text @ [CHR 0x0A]]\<rparr>"



definition passed_line :: string where
  "passed_line =
     ''data: {'' @ [dq] @ ''id'' @ [dq] @ '': '' @ [dq]
     @ ''chatcmpl-FFFFFFFFFFFFFFFFFFFFFFFFFFFFF'' @ [dq] @ ''}'' @ [CHR 0x0A, CHR 0x0A]"


text \<open>Stands for \<open>str\<close> in the examples, none of which formats a value that is not a
  string.\<close>

definition demo_str :: "json \<Rightarrow> string" where
  "demo_str v = dumps False v"



section \<open>Properties\<close>


lemma alphabet_length: "length (ascii_letters @ digits) = 62"
  by (simp add: ascii_letters_def digits_def)




text \<open>A line of the streaming emitter is the serialised \<open>sample_data\<close>, built on the generator
  that \<open>random.seed(timestamp)\<close> left.\<close>

lemma generate_sse_cases:
  assumes "generate_sse_response rnd entropy ts m c ti fn fc r tt pt ct = Inr line"
  shows "\<exists>rand d. random_seed rnd entropy ts = Inr rand \<and>
           sse_sample_data rand ts m c ti fn fc r tt pt ct = Inr d \<and> line = sse_line d"
  using assms by (auto simp: generate_sse_response_def split: sum.splits)


lemma sse_sample_data_plain:
  assumes "\<not> truthy tt"
  shows "\<exists>delta. sse_sample_data rand ts m c ti fn fc r tt pt ct =
           Inr (JObj [(''id'', JStr (chat_id rand)),
                      (''object'', JStr ''chat.completion.chunk''),
                      (''created'', ts),
                      (''model'', m),
                      (''choices'', JArr [JObj [(''index'', JInt 0), (''delta'', JObj delta),
                           (''logprobs'', JNull),
                           (''finish_reason'', if truthy c then JNull else JStr ''stop'')]]),
                      (''usage'', JNull),
                      (''system_fingerprint'', JStr ''fp_d576307f90'')]) \<and>
           (truthy r \<longrightarrow> delta = [(''role'', r), (''content'', JStr [])])"
  using assms by (simp add: sse_sample_data_def Let_def)

lemma sse_sample_data_usage:
  assumes "truthy tt" and "sse_sample_data rand ts m c ti fn fc r tt pt ct = Inr d"
  shows "\<exists>tot. py_add pt ct = Inr tot \<and>
           d = JObj [(''id'', JStr (chat_id rand)),
                     (''object'', JStr ''chat.completion.chunk''),
                     (''created'', ts),
                     (''model'', m),
                     (''choices'', JArr []),
                     (''usage'', JObj [(''prompt_tokens'', pt), (''completion_tokens'', ct),
                                       (''total_tokens'', tot)]),
                     (''system_fingerprint'', JStr ''fp_d576307f90'')]"
  using assms by (auto simp: sse_sample_data_def Let_def split: sum.splits)

lemma sse_sample_data_obj:
  "sse_sample_data rand ts m c ti fn fc r tt pt ct = Inr d \<Longrightarrow>
     \<exists>kvs. d = JObj kvs \<and> map_of kvs ''id'' = Some (JStr (chat_id rand)) \<and>
            map_of kvs ''created'' = Some ts"
  by (auto simp: sse_sample_data_def Let_def split: if_splits sum.splits)


lemma half_id: "chat_id (half_rnd seed) = ''chatcmpl-FFFFFFFFFFFFFFFFFFFFFFFFFFFFF''"
  by (simp add: chat_id_def random_str_def choices_def half_rnd_def ascii_letters_def digits_def
      upt_rec[of _ "numeral _"] upt_rec[of _ "Suc _"])

lemma digit_chars:
  "char_of (48::nat) = CHR ''0''" "char_of (49::nat) = CHR ''1''" "char_of (50::nat) = CHR ''2''"
  "char_of (51::nat) = CHR ''3''" "char_of (52::nat) = CHR ''4''" "char_of (53::nat) = CHR ''5''"
  "char_of (54::nat) = CHR ''6''" "char_of (55::nat) = CHR ''7''" "char_of (56::nat) = CHR ''8''"
  "char_of (57::nat) = CHR ''9''"
  by code_simp+

lemmas dumps_eval = sse_line_def end_of_line_def py_encode_str_def py_escape_char_def dq_def
  bsl_def str_int_def nat_digits.simps digit_chars

lemma hi_emitted:
  "generate_sse_response half_rnd zero_entropy (JInt 1700000000) (JStr ''m'') (JStr ''Hi'')
      JNull JNull JNull JNull (JInt 0) (JInt 0) (JInt 0) = Inr hi_line"
  by (simp add: generate_sse_response_def sse_sample_data_def Let_def half_id hi_line_def
      dumps_eval)

lemma role_emitted:
  "generate_sse_response half_rnd zero_entropy (JInt 1700000000) (JStr ''m'') JNull
      JNull JNull JNull (JStr ''assistant'') (JInt 0) (JInt 0) (JInt 0) = Inr role_line"
  by (simp add: generate_sse_response_def sse_sample_data_def Let_def half_id role_line_def
      dumps_eval)

lemma usage_emitted:
  "generate_sse_response half_rnd zero_entropy (JInt 1700000000) (JStr ''m'') JNull
      JNull JNull JNull JNull (JInt 999) (JInt 3) (JInt 4) = Inr usage_line"
  by (simp add: generate_sse_response_def sse_sample_data_def Let_def half_id usage_line_def
      dumps_eval)


text \<open>
  Claim C6 (as amended). Every line the emitter produces is \<open>data: \<close> followed by the
  serialised chunk and two newlines; the chunk has the keys id, object, created, model, choices,
  usage, system_fingerprint in this order. Outside the usage variant \<open>usage\<close> is null and
  \<open>choices\<close> holds one entry with index 0, a delta object (\<open>{role, content: ""}\<close> when a role
  is given), \<open>logprobs\<close> null, and \<open>finish_reason\<close> null exactly when \<open>content\<close> is
  non-empty and "stop" otherwise. In the usage variant \<open>choices\<close> is empty and \<open>usage\<close> is
  an object.
\<close>

theorem sse_chunk_shape:
  assumes "generate_sse_response rnd entropy timestamp model content tools_id function_call_name
             function_call_content role total_tokens prompt_tokens completion_tokens = Inr line"
  shows "\<exists>rand. random_seed rnd entropy timestamp = Inr rand \<and>
           (\<not> truthy total_tokens \<longrightarrow>
              (\<exists>delta.
                 line = ''data: '' @ dumps False
                   (JObj [(''id'', JStr (chat_id rand)),
                 (''object'', JStr ''chat.completion.chunk''),
                 (''created'', timestamp),
                 (''model'', model),
                 (''choices'', JArr [JObj [(''index'', JInt 0), (''delta'', JObj delta),
                      (''logprobs'', JNull), (''finish_reason'', if truthy content then JNull else JStr ''stop'')]]),
                 (''usage'', JNull),
                 (''system_fingerprint'', JStr ''fp_d576307f90'')]) @ end_of_line \<and>
                 (truthy role \<longrightarrow> delta = [(''role'', role), (''content'', JStr [])]))) \<and>
           (truthy total_tokens \<longrightarrow>
              (\<exists>usage.
                 line = ''data: '' @ dumps False
                   (JObj [(''id'', JStr (chat_id rand)),
                 (''object'', JStr ''chat.completion.chunk''),
                 (''created'', timestamp),
                 (''model'', model),
                 (''choices'', JArr []),
                 (''usage'', JObj usage),
                 (''system_fingerprint'', JStr ''fp_d576307f90'')]) @ end_of_line))"
proof -
  from generate_sse_cases[OF assms] obtain rand d where
    r: "random_seed rnd entropy timestamp = Inr rand" and
    d: "sse_sample_data rand timestamp model content tools_id function_call_name
          function_call_content role total_tokens prompt_tokens completion_tokens = Inr d" and
    l: "line = sse_line d" by blast
  show ?thesis
  proof (intro exI[of _ rand] conjI impI)
    show "random_seed rnd entropy timestamp = Inr rand" by (rule r)
  next
    assume "\<not> truthy total_tokens"
    from sse_sample_data_plain[OF this, of rand timestamp model content tools_id
        function_call_name function_call_content role prompt_tokens completion_tokens] d l
    show "\<exists>delta.
                 line = ''data: '' @ dumps False
                   (JObj [(''id'', JStr (chat_id rand)),
                 (''object'', JStr ''chat.completion.chunk''),
                 (''created'', timestamp),
                 (''model'', model),
                 (''choices'', JArr [JObj [(''index'', JInt 0), (''delta'', JObj delta),
                      (''logprobs'', JNull), (''finish_reason'', if truthy content then JNull else JStr ''stop'')]]),
                 (''usage'', JNull),
                 (''system_fingerprint'', JStr ''fp_d576307f90'')]) @ end_of_line \<and>
                 (truthy role \<longrightarrow> delta = [(''role'', role), (''content'', JStr [])])"
      by (auto simp: sse_line_def simp del: dumps.simps)
  next
    assume "truthy total_tokens"
    from sse_sample_data_usage[OF this d] l
    show "\<exists>usage.
                 line = ''data: '' @ dumps False
                   (JObj [(''id'', JStr (chat_id rand)),
                 (''object'', JStr ''chat.completion.chunk''),
                 (''created'', timestamp),
                 (''model'', model),
                 (''choices'', JArr []),
                 (''usage'', JObj usage),
                 (''system_fingerprint'', JStr ''fp_d576307f90'')]) @ end_of_line"
      by (auto simp: sse_line_def simp del: dumps.simps)
  qed
qed

text \<open>
  Witness for C6: the line of the text delta "Hi".
\<close>

theorem sse_chunk_shape_witness:
  "generate_sse_response half_rnd zero_entropy (JInt 1700000000) (JStr ''m'') (JStr ''Hi'')
      JNull JNull JNull JNull (JInt 0) (JInt 0) (JInt 0) = Inr hi_line \<and>
   (\<exists>delta. hi_line = ''data: '' @ dumps False
      (JObj [(''id'', JStr (''chatcmpl-FFFFFFFFFFFFFFFFFFFFFFFFFFFFF'')),
                 (''object'', JStr ''chat.completion.chunk''),
                 (''created'', JInt 1700000000),
                 (''model'', JStr ''m''),
                 (''choices'', JArr [JObj [(''index'', JInt 0), (''delta'', JObj delta),
                      (''logprobs'', JNull), (''finish_reason'', JNull)]]),
                 (''usage'', JNull),
                 (''system_fingerprint'', JStr ''fp_d576307f90'')]) @ end_of_line)"
  using sse_chunk_shape[OF hi_emitted] by (simp add: hi_emitted half_id del: dumps.simps)

text \<open>
  Counterexample to C6 as stated: the line of a role announcement (content absent) holds
  \<open>"finish_reason": "stop"\<close>, not \<open>"finish_reason": null\<close>.
\<close>

theorem role_chunk_finish_reason_counterexample:
  "generate_sse_response half_rnd zero_entropy (JInt 1700000000) (JStr ''m'') JNull
      JNull JNull JNull (JStr ''assistant'') (JInt 0) (JInt 0) (JInt 0) = Inr role_line \<and>
   contains role_line (''finish_reason'' @ [dq] @ '': '' @ [dq] @ ''stop'' @ [dq]) \<and>
   \<not> contains role_line (''finish_reason'' @ [dq] @ '': null'')"
  by (simp add: role_emitted) (simp add: role_line_def dq_def)

text \<open>
  Claim C7. Whenever \<open>total_tokens\<close> is present (truthy) and the emitter produces a line, the
  line is \<open>data: \<close> followed by the serialised chunk and two newlines, and the chunk has
  \<open>usage = {prompt_tokens, completion_tokens, total_tokens}\<close> where the total is
  \<open>prompt_tokens + completion_tokens\<close> as Python adds them (the sum of the two integers when
  they are integers), whatever total was passed, and its \<open>choices\<close> array is empty.
\<close>

theorem usage_event_total:
  assumes "truthy total_tokens"
    and "generate_sse_response rnd entropy timestamp model content tools_id function_call_name
           function_call_content role total_tokens prompt_tokens completion_tokens = Inr line"
  shows "\<exists>rand tot. random_seed rnd entropy timestamp = Inr rand \<and>
           py_add prompt_tokens completion_tokens = Inr tot \<and>
           (\<forall>p c. prompt_tokens = JInt p \<and> completion_tokens = JInt c \<longrightarrow> tot = JInt (p + c)) \<and>
           line = ''data: '' @ dumps False
             (JObj [(''id'', JStr (chat_id rand)),
                 (''object'', JStr ''chat.completion.chunk''),
                 (''created'', timestamp),
                 (''model'', model),
                 (''choices'', JArr []),
                 (''usage'', JObj [(''prompt_tokens'', prompt_tokens),
                                   (''completion_tokens'', completion_tokens),
                                   (''total_tokens'', tot)]),
                 (''system_fingerprint'', JStr ''fp_d576307f90'')]) @ end_of_line"
proof -
  from generate_sse_cases[OF assms(2)] obtain rand d where
    r: "random_seed rnd entropy timestamp = Inr rand" and
    d: "sse_sample_data rand timestamp model content tools_id function_call_name
          function_call_content role total_tokens prompt_tokens completion_tokens = Inr d" and
    l: "line = sse_line d" by blast
  from sse_sample_data_usage[OF assms(1) d] obtain tot where
    t: "py_add prompt_tokens completion_tokens = Inr tot" and
    d': "d = JObj [(''id'', JStr (chat_id rand)),
                 (''object'', JStr ''chat.completion.chunk''),
                 (''created'', timestamp),
                 (''model'', model),
                 (''choices'', JArr []),
                 (''usage'', JObj [(''prompt_tokens'', prompt_tokens),
                                   (''completion_tokens'', completion_tokens),
                                   (''total_tokens'', tot)]),
                 (''system_fingerprint'', JStr ''fp_d576307f90'')]" by blast
  have "\<forall>p c. prompt_tokens = JInt p \<and> completion_tokens = JInt c \<longrightarrow> tot = JInt (p + c)"
    using t by auto
  then show ?thesis using r t l unfolding d' sse_line_def by blast
qed

text \<open>
  Witness for C7: the upstream total 999 is replaced by 3 + 4 = 7; the line as emitted.
\<close>

theorem usage_event_total_witness:
  "truthy (JInt 999) \<and>
   generate_sse_response half_rnd zero_entropy (JInt 1700000000) (JStr ''m'') JNull
      JNull JNull JNull JNull (JInt 999) (JInt 3) (JInt 4) = Inr usage_line \<and>
   usage_line = ''data: '' @ dumps False
     (JObj [(''id'', JStr (''chatcmpl-FFFFFFFFFFFFFFFFFFFFFFFFFFFFF'')),
                 (''object'', JStr ''chat.completion.chunk''),
                 (''created'', JInt 1700000000),
                 (''model'', JStr ''m''),
                 (''choices'', JArr []),
                 (''usage'', JObj [(''prompt_tokens'', JInt 3),
                                   (''completion_tokens'', JInt 4),
                                   (''total_tokens'', JInt 7)]),
                 (''system_fingerprint'', JStr ''fp_d576307f90'')]) @ end_of_line"
proof -
  have t: "truthy (JInt 999)" by simp
  from usage_event_total[OF t usage_emitted] t usage_emitted show ?thesis
    by (auto simp: half_id simp del: dumps.simps)
qed








lemma is_rate_limited_cases:
  assumes "is_rate_limited now s item model = Inr (limited, s')"
  shows "(limited \<longrightarrow> s' = s) \<and>
         (\<not> limited \<longrightarrow>
            \<not> now < cooling_until s item \<and>
            \<not> limit_reached (requests s item (model_key model)) now (applicable_rate_limit (rate_limits s) model) \<and>
            (\<exists>max_period. max_list (map snd (applicable_rate_limit (rate_limits s) model)) = Inr max_period \<and>
               s' = s\<lparr>requests := (requests s)(item := (requests s item)
                      (model_key model := filter (\<lambda>req. req > now - real max_period)
                          (requests s item (model_key model)) @ [now]))\<rparr>))"
  using assms by (auto simp: is_rate_limited_def Let_def split: if_splits sum.splits)





lemma is_rate_limited_frame:
  assumes "is_rate_limited now s item model = Inr (limited, s')"
  shows "items s' = items s \<and> index s' = index s \<and> rate_limits s' = rate_limits s
         \<and> cooling_until s' = cooling_until s \<and> schedule_algorithm s' = schedule_algorithm s"
  using is_rate_limited_cases[OF assms] by (cases limited) auto






text \<open>What the loop of \<open>next\<close> leaves in the request log: the pool it returns with a
  credential is the very pool the accepting call of \<open>is_rate_limited\<close> returned, and that
  call started from the returned pool with the log of the beginning.\<close>

lemma next_loop_records:
  assumes "next_loop clock model start k s = Some y"
  shows "(\<forall>item. fst y = Inr item \<longrightarrow>
            (\<exists>j. is_rate_limited (clock j) ((snd y)\<lparr>requests := requests s\<rparr>) item model
                    = Inr (False, snd y))) \<and>
         ((\<exists>e. fst y = Inl e) \<longrightarrow> requests (snd y) = requests s) \<and>
         items (snd y) = items s \<and> cooling_until (snd y) = cooling_until s \<and>
         schedule_algorithm (snd y) = schedule_algorithm s"
proof (rule next_loop.raw_induct[where P="\<lambda>clock model start k s y.
         (\<forall>item. fst y = Inr item \<longrightarrow>
            (\<exists>j. is_rate_limited (clock j) ((snd y)\<lparr>requests := requests s\<rparr>) item model
                    = Inr (False, snd y))) \<and>
         ((\<exists>e. fst y = Inl e) \<longrightarrow> requests (snd y) = requests s) \<and>
         items (snd y) = items s \<and> cooling_until (snd y) = cooling_until s \<and>
         schedule_algorithm (snd y) = schedule_algorithm s", OF _ assms], goal_cases)
  case (1 nl clock model start k s y)
  show ?case
  proof (cases "length (items s) \<le> index s")
    case True
    then show ?thesis using 1(2) by auto
  next
    case False
    let ?s1 = "s\<lparr>index := (index s + 1) mod length (items s)\<rparr>"
    let ?item = "items s ! index s"
    show ?thesis
    proof (cases "is_rate_limited (clock k) ?s1 ?item model")
      case (Inl e)
      then show ?thesis using 1(2) False by (auto simp: Let_def)
    next
      case (Inr bs)
      obtain limited s2 where bs: "bs = (limited, s2)" by (cases bs)
      note irl = Inr[unfolded bs]
      note fr = is_rate_limited_frame[OF irl]
      show ?thesis
      proof (cases limited)
        case notlim: False
        then have y: "y = (Inr ?item, s2)" using 1(2) False irl by (auto simp: Let_def)
        from is_rate_limited_cases[OF irl] notlim obtain lg where s2: "s2 = ?s1\<lparr>requests := lg\<rparr>"
          by auto
        have rst: "s2\<lparr>requests := requests s\<rparr> = ?s1" unfolding s2 by simp
        have "is_rate_limited (clock k) (s2\<lparr>requests := requests s\<rparr>) ?item model = Inr (False, s2)"
          unfolding rst using irl notlim by simp
        then show ?thesis unfolding y using fr by auto
      next
        case lim: True
        then have same: "s2 = ?s1" using is_rate_limited_cases[OF irl] by simp
        show ?thesis
        proof (cases "index s2 = start")
          case True
          then show ?thesis using 1(2) False irl lim same by (auto simp: Let_def)
        next
          case F2: False
          then have "nl clock model start (Suc k) s2 = Some y"
            using 1(2) False irl lim by (auto simp: Let_def)
          from 1(1)[OF this] show ?thesis unfolding same by simp
        qed
      qed
    qed
  qed
qed

lemma next_item_records:
  assumes "next_item clock model s = Some (r, s')"
  shows "(\<forall>item. r = Inr item \<longrightarrow>
            (\<exists>j. is_rate_limited (clock j) (s'\<lparr>requests := requests s\<rparr>) item model
                    = Inr (False, s'))) \<and>
         ((\<exists>e. r = Inl e) \<longrightarrow> requests s' = requests s) \<and>
         items s' = items s \<and> cooling_until s' = cooling_until s \<and>
         schedule_algorithm s' = schedule_algorithm s"
proof -
  let ?s0 = "if schedule_algorithm s = ''fixed_priority'' then s\<lparr>index := 0\<rparr> else s"
  have nl: "next_loop clock model (index ?s0) 0 ?s0 = Some (r, s')"
    using assms by (simp add: next_item_def Let_def)
  from next_loop_records[OF nl] show ?thesis by (simp split: if_splits)
qed




lemma next_one_default:
  "next_item (const_clock 0) None pool_one_default =
     Some (Inr ''k'', pool_one_default\<lparr>requests := (requests pool_one_default)
        (''k'' := (requests pool_one_default ''k'')(''default'' := [0]))\<rparr>)"
  by (simp add: pool_one_default_def next_item_def ThreadSafeCircularList_def next_loop.simps
      is_rate_limited_def model_key_def model_truthy_def applicable_rate_limit_def
      recent_requests_def const_clock_def Let_def)



text \<open>
  Claim C3 (as amended). When \<open>is_rate_limited\<close> answers True the pool is unchanged (not even
  trimmed). When it answers False it has itself recorded the request: the log of
  \<open>(credential, model_key)\<close> becomes the old log without the entries older than the largest
  period of the applicable list, followed by \<open>now\<close>; every other log and every other field of
  the pool is unchanged. The method \<open>next\<close> records nothing of its own: when it returns a
  credential, the pool it leaves is the very pool that the accepting call of
  \<open>is_rate_limited\<close> returned, and that call found the log as it was before \<open>next\<close>; when
  \<open>next\<close> raises, the log is unchanged. In both cases the items, the cooling map and the
  scheduling discipline are unchanged.
\<close>

theorem is_rate_limited_effect:
  "(is_rate_limited now s item model = Inr (limited, s') \<longrightarrow>
      (limited \<longrightarrow> s' = s) \<and>
      (\<not> limited \<longrightarrow>
         (\<exists>max_period.
            max_list (map snd (applicable_rate_limit (rate_limits s) model)) = Inr max_period \<and>
            requests s' item (model_key model) =
              filter (\<lambda>req. req > now - real max_period) (requests s item (model_key model))
                @ [now]) \<and>
         (\<forall>item' key'. (item', key') \<noteq> (item, model_key model) \<longrightarrow>
            requests s' item' key' = requests s item' key') \<and>
         items s' = items s \<and> index s' = index s \<and> cooling_until s' = cooling_until s \<and>
         rate_limits s' = rate_limits s \<and> schedule_algorithm s' = schedule_algorithm s)) \<and>
   (next_item clock model p = Some (r, p') \<longrightarrow>
      (\<forall>credential. r = Inr credential \<longrightarrow>
         (\<exists>j. is_rate_limited (clock j) (p'\<lparr>requests := requests p\<rparr>) credential model
                 = Inr (False, p'))) \<and>
      ((\<exists>e. r = Inl e) \<longrightarrow> requests p' = requests p) \<and>
      items p' = items p \<and> cooling_until p' = cooling_until p \<and>
      schedule_algorithm p' = schedule_algorithm p)"
proof (intro conjI impI)
  assume a: "is_rate_limited now s item model = Inr (limited, s')"
  show "limited \<Longrightarrow> s' = s" using is_rate_limited_cases[OF a] by simp
  assume nl: "\<not> limited"
  with is_rate_limited_cases[OF a] obtain mp where
    mp: "max_list (map snd (applicable_rate_limit (rate_limits s) model)) = Inr mp" and
    s': "s' = s\<lparr>requests := (requests s)(item := (requests s item)
                      (model_key model := filter (\<lambda>req. req > now - real mp)
                          (requests s item (model_key model)) @ [now]))\<rparr>"
    by auto
  show "\<exists>max_period.
            max_list (map snd (applicable_rate_limit (rate_limits s) model)) = Inr max_period \<and>
            requests s' item (model_key model) =
              filter (\<lambda>req. req > now - real max_period) (requests s item (model_key model))
                @ [now]"
    using mp unfolding s' by auto
  show "\<forall>item' key'. (item', key') \<noteq> (item, model_key model) \<longrightarrow>
            requests s' item' key' = requests s item' key'"
    unfolding s' by auto
  show "items s' = items s" "index s' = index s" "cooling_until s' = cooling_until s"
    "rate_limits s' = rate_limits s" "schedule_algorithm s' = schedule_algorithm s"
    unfolding s' by simp_all
next
  assume n: "next_item clock model p = Some (r, p')"
  note f = next_item_records[OF n]
  show "\<forall>credential. r = Inr credential \<longrightarrow>
         (\<exists>j. is_rate_limited (clock j) (p'\<lparr>requests := requests p\<rparr>) credential model
                 = Inr (False, p'))"
    using f by blast
  show "\<exists>e. r = Inl e \<Longrightarrow> requests p' = requests p" using f by blast
  show "items p' = items p" "cooling_until p' = cooling_until p"
    "schedule_algorithm p' = schedule_algorithm p"
    using f by simp_all
qed

text \<open>
  Witness for C3: a call at time 5 on a fresh pool, and a call of next at time 0 on the same
  pool.
\<close>

theorem is_rate_limited_effect_witness:
  "is_rate_limited 5 pool_one_default ''k'' None =
     Inr (False, pool_one_default\<lparr>requests := (requests pool_one_default)
        (''k'' := (requests pool_one_default ''k'')(''default'' := [5]))\<rparr>) \<and>
   (\<exists>max_period.
       max_list (map snd (applicable_rate_limit (rate_limits pool_one_default) None)) = Inr max_period \<and>
       requests (pool_one_default\<lparr>requests := (requests pool_one_default)
        (''k'' := (requests pool_one_default ''k'')(''default'' := [5]))\<rparr>) ''k'' (model_key None) =
         filter (\<lambda>req. req > 5 - real max_period) (requests pool_one_default ''k'' (model_key None)) @ [5]) \<and>
   next_item (const_clock 0) None pool_one_default =
     Some (Inr ''k'', pool_one_default\<lparr>requests := (requests pool_one_default)
        (''k'' := (requests pool_one_default ''k'')(''default'' := [0]))\<rparr>) \<and>
   (\<exists>j. is_rate_limited (const_clock 0 j)
           (pool_one_default\<lparr>requests := (requests pool_one_default)
              (''k'' := (requests pool_one_default ''k'')(''default'' := [0]))\<rparr>
              \<lparr>requests := requests pool_one_default\<rparr>) ''k'' None =
         Inr (False, pool_one_default\<lparr>requests := (requests pool_one_default)
              (''k'' := (requests pool_one_default ''k'')(''default'' := [0]))\<rparr>))"
proof -
  have e: "is_rate_limited 5 pool_one_default ''k'' None =
     Inr (False, pool_one_default\<lparr>requests := (requests pool_one_default)
        (''k'' := (requests pool_one_default ''k'')(''default'' := [5]))\<rparr>)"
    by (simp add: pool_one_default_def ThreadSafeCircularList_def
      is_rate_limited_def model_key_def model_truthy_def applicable_rate_limit_def
      recent_requests_def Let_def)
  note t = is_rate_limited_effect[of 5 pool_one_default "''k''" None False
      "pool_one_default\<lparr>requests := (requests pool_one_default)
        (''k'' := (requests pool_one_default ''k'')(''default'' := [5]))\<rparr>"
      "const_clock 0" pool_one_default "Inr ''k''"
      "pool_one_default\<lparr>requests := (requests pool_one_default)
        (''k'' := (requests pool_one_default ''k'')(''default'' := [0]))\<rparr>"]
  show ?thesis using t e next_one_default by blast
qed

text \<open>
  Counterexample to C3 as stated: on a fresh pool the log of ("k", "default") is empty; a single
  call of \<open>is_rate_limited\<close> at time 5 answers False and leaves the log \<open>[5]\<close>: it appended a
  timestamp.
\<close>

theorem is_rate_limited_records_counterexample:
  "requests pool_one_default ''k'' ''default'' = [] \<and>
   is_rate_limited 5 pool_one_default ''k'' None =
     Inr (False, pool_one_default\<lparr>requests := (requests pool_one_default)
        (''k'' := (requests pool_one_default ''k'')(''default'' := [5]))\<rparr>) \<and>
   requests (pool_one_default\<lparr>requests := (requests pool_one_default)
        (''k'' := (requests pool_one_default ''k'')(''default'' := [5]))\<rparr>) ''k'' ''default'' = [5]"
  by (simp add: pool_one_default_def ThreadSafeCircularList_def
      is_rate_limited_def model_key_def model_truthy_def applicable_rate_limit_def
      recent_requests_def Let_def)

text \<open>
  Claim C9. On a pool without items \<open>next(model)\<close> raises IndexError (from \<open>self.items[self.index]\<close>),
  not the HTTP 429 failure, and \<open>after_next_current\<close> returns None.
\<close>

theorem empty_pool_next_index_error:
  assumes "items s = []"
  shows "next_item clock model s =
           Some (Inl IndexError,
                 if schedule_algorithm s = ''fixed_priority'' then s\<lparr>index := 0\<rparr> else s) \<and>
         after_next_current s = None"
  using assms by (simp add: next_item_def Let_def next_loop.simps after_next_current_def)

text \<open>
  Witness for C9: the pool built from an empty items list.
\<close>

theorem empty_pool_next_index_error_witness:
  "items pool_empty = [] \<and>
   next_item (const_clock 0) (Some ''gpt-4o'') pool_empty = Some (Inl IndexError, pool_empty) \<and>
   after_next_current pool_empty = None"
proof -
  have e: "items pool_empty = []" by (simp add: pool_empty_def ThreadSafeCircularList_def)
  have a: "schedule_algorithm pool_empty \<noteq> ''fixed_priority''"
    by (simp add: pool_empty_def ThreadSafeCircularList_def)
  from empty_pool_next_index_error[OF e, of "const_clock 0" "Some ''gpt-4o''"] e a
  show ?thesis by simp
qed

lemma no_done_simps [simp]:
  "no_done []" "no_done (a @ b) = (no_done a \<and> no_done b)"
  "no_done (e # es) = (e \<noteq> EStr done_line \<and> no_done es)"
  by (auto simp: no_done_def)

lemma single_done_snoc: "no_done pre \<Longrightarrow> ends_with_single_done (pre @ [EStr done_line])"
  by (induction pre) (auto simp: ends_with_single_done_def no_done_def)

lemma single_done_not_no_done: "ends_with_single_done evs \<Longrightarrow> \<not> no_done evs"
  by (auto simp: ends_with_single_done_def no_done_def) (metis last_in_set)

lemma sse_line_not_done: "sse_line (JObj kvs) \<noteq> done_line"
  by (simp add: sse_line_def done_line_def)

lemma sse_not_done:
  "generate_sse_response rnd entropy ts m c ti fn fc r tt pt ct = Inr s \<Longrightarrow> s \<noteq> done_line"
  using sse_sample_data_obj sse_line_not_done
  by (fastforce dest!: generate_sse_cases)

lemma yield_sse_no_done:
  "yield_sse (generate_sse_response rnd entropy ts m c ti fn fc r tt pt ct) = (evs, err) \<Longrightarrow> no_done evs"
  using sse_not_done by (auto simp: yield_sse_def split: sum.splits)

lemma py_strip_braces: "py_strip (CHR ''{'' # xs @ ''}'') = CHR ''{'' # xs @ ''}''"
  by (simp add: py_strip_def is_space_def)

lemma passthrough_not_done:
  "''data: '' @ py_strip (dumps True (JObj kvs)) @ end_of_line \<noteq> done_line"
  by (simp add: py_strip_braces done_line_def)

lemma py_setitem_obj: "py_setitem v k x = Inr v' \<Longrightarrow> \<exists>kvs. v' = JObj kvs"
  by (cases v) auto

lemma gpt_line_done_line:
  "is_done_line line \<Longrightarrow> gpt_line rnd entropy loads ts line = ([EStr done_line], Some Finished)"
  by (simp add: gpt_line_def is_done_line_def Let_def)

lemma gpt_line_other:
  assumes "\<not> is_done_line line" and "gpt_line rnd entropy loads ts line = (evs, st)"
  shows "st \<noteq> Some Finished \<and> no_done evs"
  using assms sse_not_done passthrough_not_done
  by (fastforce simp: gpt_line_def is_done_line_def Let_def
      split: if_splits option.splits sum.splits dest: py_setitem_obj)

lemma gpt_lines_outcome:
  "gpt_lines rnd entropies loads ts ls = (evs, st) \<Longrightarrow>
     (st = Some Finished \<longrightarrow>
        (\<exists>l \<in> set ls. is_done_line l) \<and> (\<exists>pre. evs = pre @ [EStr done_line] \<and> no_done pre)) \<and>
     (st = None \<longrightarrow> (\<forall>l \<in> set ls. \<not> is_done_line l) \<and> no_done evs) \<and>
     (st \<noteq> Some Finished \<longrightarrow> no_done evs)"
proof (induction ls arbitrary: evs st entropies)
  case Nil
  then show ?case by simp
next
  case (Cons line rest)
  obtain e1 s1 where l: "gpt_line rnd (entropies 0) loads ts line = (e1, s1)"
    by (cases "gpt_line rnd (entropies 0) loads ts line")
  show ?case
  proof (cases "is_done_line line")
    case True
    from gpt_line_done_line[OF True, of rnd "entropies 0" loads ts] l
    have "e1 = [EStr done_line]" "s1 = Some Finished" by auto
    with Cons.prems l have "evs = [] @ [EStr done_line]" "st = Some Finished" by auto
    then show ?thesis using True by auto
  next
    case False
    note g = gpt_line_other[OF False l]
    show ?thesis
    proof (cases s1)
      case None
      obtain e2 s2 where r: "gpt_lines rnd (\<lambda>i. entropies (Suc i)) loads ts rest = (e2, s2)"
        by (cases "gpt_lines rnd (\<lambda>i. entropies (Suc i)) loads ts rest")
      from Cons.prems l None r have ev: "evs = e1 @ e2" "st = s2" by auto
      note ih = Cons.IH[OF r]
      show ?thesis unfolding ev
      proof (intro conjI impI)
        assume f: "s2 = Some Finished"
        with ih show "\<exists>l \<in> set (line # rest). is_done_line l" by auto
        from ih f obtain pre where "e2 = pre @ [EStr done_line]" "no_done pre" by blast
        then show "\<exists>pre. e1 @ e2 = pre @ [EStr done_line] \<and> no_done pre"
          using g by (intro exI[of _ "e1 @ pre"]) simp
      next
        assume "s2 = None"
        with ih False show "\<forall>l \<in> set (line # rest). \<not> is_done_line l" by auto
        from ih \<open>s2 = None\<close> g show "no_done (e1 @ e2)" by simp
      next
        assume "s2 \<noteq> Some Finished"
        with ih g show "no_done (e1 @ e2)" by simp
      qed
    next
      case (Some oc)
      with Cons.prems l have ev: "evs = e1" "st = Some oc" by auto
      show ?thesis using g Some unfolding ev by auto
    qed
  qed
qed

lemma claude_message_no_done:
  "claude_message rnd entropy ts model it resp = (evs, it', err) \<Longrightarrow> no_done evs"
  by (auto simp: claude_message_def Let_def split: if_splits sum.splits option.splits prod.splits
      dest: yield_sse_no_done)

lemma claude_usage_no_done:
  "claude_usage rnd entropy ts model it resp = (evs, err) \<Longrightarrow> no_done evs"
  by (auto simp: claude_usage_def Let_def split: if_splits sum.splits option.splits prod.splits
      dest: yield_sse_no_done)

lemma claude_tool_use_no_done:
  "claude_tool_use rnd entropy ts model resp = (evs, err) \<Longrightarrow> no_done evs"
  by (auto simp: claude_tool_use_def Let_def split: if_splits sum.splits option.splits prod.splits
      dest: yield_sse_no_done)

lemma claude_delta_field_text_no_done:
  "claude_delta_field k (\<lambda>content. generate_sse_response rnd entropy ts model content JNull JNull
        JNull JNull (JInt 0) (JInt 0) (JInt 0)) delta = (evs, err) \<Longrightarrow> no_done evs"
  by (auto simp: claude_delta_field_def split: if_splits sum.splits dest: yield_sse_no_done)

lemma claude_delta_field_json_no_done:
  "claude_delta_field k (\<lambda>fc. generate_sse_response rnd entropy ts model JNull JNull JNull
        fc JNull (JInt 0) (JInt 0) (JInt 0)) delta = (evs, err) \<Longrightarrow> no_done evs"
  by (auto simp: claude_delta_field_def split: if_splits sum.splits dest: yield_sse_no_done)

lemma claude_delta_no_done:
  "claude_delta rnd entropy ts model resp = (evs, err) \<Longrightarrow> no_done evs"
  by (auto simp: claude_delta_def Let_def split: if_splits option.splits prod.splits
      dest: claude_delta_field_text_no_done claude_delta_field_json_no_done)

lemma claude_line_no_done:
  "claude_line rnd entropy loads ts model it line = (evs, it', err) \<Longrightarrow> no_done evs"
  by (auto simp: claude_line_def split: if_splits option.splits prod.splits json.splits
      dest: claude_message_no_done claude_usage_no_done claude_tool_use_no_done claude_delta_no_done)

lemma claude_lines_no_done:
  "claude_lines rnd entropy loads ts model it ls = (evs, it', err) \<Longrightarrow> no_done evs"
proof (induction ls arbitrary: it evs it' err)
  case Nil
  then show ?case by simp
next
  case (Cons line rest)
  then show ?case
    by (auto split: prod.splits option.splits dest: claude_line_no_done)
qed

lemma claude_chunks_done:
  "claude_chunks rnd entropy loads ts model it buffer cs = (evs, Finished) \<Longrightarrow>
     \<exists>pre. evs = pre @ [EStr done_line] \<and> no_done pre"
proof (induction cs arbitrary: it buffer evs)
  case Nil
  then show ?case by simp
next
  case (Cons chunk rest)
  obtain ls b' where sp: "split_lines (buffer @ chunk) = (ls, b')" by (cases "split_lines (buffer @ chunk)")
  obtain e1 it1 err where l: "claude_lines rnd entropy loads ts model it ls = (e1, it1, err)"
    by (cases "claude_lines rnd entropy loads ts model it ls") auto
  have nd: "no_done e1" using claude_lines_no_done[OF l] .
  from Cons.prems sp l have none: "err = None" by (cases err) auto
  obtain e2 o2 where r: "claude_chunks rnd entropy loads ts model it1 b' rest = (e2, o2)"
    by (cases "claude_chunks rnd entropy loads ts model it1 b' rest")
  from Cons.prems sp l none r have ev: "evs = e1 @ e2" "o2 = Finished" by auto
  from Cons.IH[OF r[unfolded ev(2)]] obtain pre where "e2 = pre @ [EStr done_line]" "no_done pre" by blast
  then show ?case unfolding ev using nd by (intro exI[of _ "e1 @ pre"]) simp
qed

lemma gemini_text_no_done:
  "gemini_text rnd entropy loads ts model line = (evs, err) \<Longrightarrow> no_done evs"
  by (auto simp: gemini_text_def split: if_splits option.splits sum.splits json.splits
      dest: yield_sse_no_done)

lemma gemini_lines_no_done:
  "gemini_lines rnd entropy loads ts model st ls = (evs, st', err) \<Longrightarrow> no_done evs"
proof (induction ls arbitrary: st evs st' err)
  case Nil
  then show ?case by simp
next
  case (Cons line rest)
  then show ?case
    by (auto split: if_splits prod.splits option.splits dest: gemini_text_no_done)
qed

lemma gemini_finish_done:
  "gemini_finish rnd entropy loads ts model st = (evs, Finished) \<Longrightarrow>
     \<exists>pre. evs = pre @ [EStr done_line] \<and> no_done pre"
proof (cases "need_function_call st")
  case False
  assume "gemini_finish rnd entropy loads ts model st = (evs, Finished)"
  with False have "evs = [] @ [EStr done_line]" by (simp add: gemini_finish_def)
  then show ?thesis by (intro exI[of _ "[]"]) simp
next
  case True
  assume a: "gemini_finish rnd entropy loads ts model st = (evs, Finished)"
  from a True obtain e1 e2 r1 r2 where
    "evs = e1 @ e2 @ [EStr done_line]"
    "yield_sse (generate_sse_response rnd entropy (JInt ts) model JNull
       (JStr ''chatcmpl-9inWv0yEtgn873CxMBzHeCeiHctTV'') r1 JNull JNull (JInt 0) (JInt 0) (JInt 0)) = (e1, None)"
    "yield_sse (generate_sse_response rnd entropy (JInt ts) model JNull
       (JStr ''chatcmpl-9inWv0yEtgn873CxMBzHeCeiHctTV'') JNull (JStr r2) JNull (JInt 0) (JInt 0) (JInt 0)) = (e2, None)"
    by (auto simp: gemini_finish_def split: option.splits sum.splits prod.splits)
  then show ?thesis
    using yield_sse_no_done by (intro exI[of _ "e1 @ e2"]) auto
qed

lemma gemini_chunks_done:
  "gemini_chunks rnd entropy loads ts model st buffer cs = (evs, Finished) \<Longrightarrow>
     \<exists>pre. evs = pre @ [EStr done_line] \<and> no_done pre"
proof (induction cs arbitrary: st buffer evs)
  case Nil
  then show ?case using gemini_finish_done by simp
next
  case (Cons chunk rest)
  obtain ls b' where sp: "split_lines (buffer @ chunk) = (ls, b')" by (cases "split_lines (buffer @ chunk)")
  obtain e1 st1 err where l: "gemini_lines rnd entropy loads ts model st ls = (e1, st1, err)"
    by (cases "gemini_lines rnd entropy loads ts model st ls") auto
  have nd: "no_done e1" using gemini_lines_no_done[OF l] .
  from Cons.prems sp l have none: "err = None" by (cases err) auto
  let ?next = "if is_finish st1 then gemini_finish rnd entropy loads ts model st1
               else gemini_chunks rnd entropy loads ts model st1 b' rest"
  obtain e2 o2 where r: "?next = (e2, o2)" by (cases ?next)
  from Cons.prems sp l none r have ev: "evs = e1 @ e2" "o2 = Finished" by auto
  have "\<exists>pre. e2 = pre @ [EStr done_line] \<and> no_done pre"
    using r[unfolded ev(2)] gemini_finish_done Cons.IH by (auto split: if_splits)
  then obtain pre where "e2 = pre @ [EStr done_line]" "no_done pre" by blast
  then show ?case unfolding ev using nd by (intro exI[of _ "e1 @ pre"]) simp
qed

lemma claude_chunks_raised:
  "claude_chunks rnd entropy loads ts model it buffer cs = (evs, Raised e) \<Longrightarrow> no_done evs"
proof (induction cs arbitrary: it buffer evs)
  case Nil
  then show ?case by simp
next
  case (Cons chunk rest)
  obtain ls b' where sp: "split_lines (buffer @ chunk) = (ls, b')" by (cases "split_lines (buffer @ chunk)")
  obtain e1 it1 err where l: "claude_lines rnd entropy loads ts model it ls = (e1, it1, err)"
    by (cases "claude_lines rnd entropy loads ts model it ls") auto
  have nd: "no_done e1" using claude_lines_no_done[OF l] .
  show ?case
  proof (cases err)
    case None
    obtain e2 o2 where r: "claude_chunks rnd entropy loads ts model it1 b' rest = (e2, o2)"
      by (cases "claude_chunks rnd entropy loads ts model it1 b' rest")
    from Cons.prems sp l None r have ev: "evs = e1 @ e2" "o2 = Raised e" by auto
    from Cons.IH[OF r[unfolded ev(2)]] nd show ?thesis unfolding ev by simp
  next
    case (Some x)
    with Cons.prems sp l nd show ?thesis by auto
  qed
qed

lemma gemini_finish_raised:
  "gemini_finish rnd entropy loads ts model st = (evs, Raised e) \<Longrightarrow> no_done evs"
  by (auto simp: gemini_finish_def split: if_splits option.splits sum.splits prod.splits
      dest: yield_sse_no_done)

lemma gemini_chunks_raised:
  "gemini_chunks rnd entropy loads ts model st buffer cs = (evs, Raised e) \<Longrightarrow> no_done evs"
proof (induction cs arbitrary: st buffer evs)
  case Nil
  then show ?case using gemini_finish_raised by simp
next
  case (Cons chunk rest)
  obtain ls b' where sp: "split_lines (buffer @ chunk) = (ls, b')" by (cases "split_lines (buffer @ chunk)")
  obtain e1 st1 err where l: "gemini_lines rnd entropy loads ts model st ls = (e1, st1, err)"
    by (cases "gemini_lines rnd entropy loads ts model st ls") auto
  have nd: "no_done e1" using gemini_lines_no_done[OF l] .
  show ?case
  proof (cases err)
    case None
    let ?next = "if is_finish st1 then gemini_finish rnd entropy loads ts model st1
                 else gemini_chunks rnd entropy loads ts model st1 b' rest"
    obtain e2 o2 where r: "?next = (e2, o2)" by (cases ?next)
    from Cons.prems sp l None r have ev: "evs = e1 @ e2" "o2 = Raised e" by auto
    have "no_done e2"
      using r[unfolded ev(2)] gemini_finish_raised Cons.IH by (auto split: if_splits)
    then show ?thesis unfolding ev using nd by simp
  next
    case (Some x)
    with Cons.prems sp l nd show ?thesis by auto
  qed
qed

lemma check_response_ok:
  "200 \<le> status_code resp \<Longrightarrow> status_code resp < 300 \<Longrightarrow> check_response loads resp l = None"
  by (simp add: check_response_def)

section \<open>The chunking of the upstream text does not matter\<close>

lemma split_lines_rest: "CHR 0x0A \<notin> set (snd (split_lines s))"
  by (induction s) (auto split: prod.splits list.splits)

lemma split_lines_no_newline: "CHR 0x0A \<notin> set s \<Longrightarrow> split_lines s = ([], s)"
  by (induction s) auto

lemma split_lines_append:
  "split_lines (a @ b) =
     (fst (split_lines a) @ fst (split_lines (snd (split_lines a) @ b)),
      snd (split_lines (snd (split_lines a) @ b)))"
  by (induction a) (auto split: prod.splits list.splits)

lemma gpt_lines_append:
  "gpt_lines rnd entropies loads ts (xs @ ys) =
     (case gpt_lines rnd entropies loads ts xs of
        (evs, Some oc) \<Rightarrow> (evs, Some oc)
      | (evs, None) \<Rightarrow>
          (case gpt_lines rnd (\<lambda>i. entropies (length xs + i)) loads ts ys of
             (evs', st) \<Rightarrow> (evs @ evs', st)))"
proof (induction xs arbitrary: entropies)
  case Nil
  then show ?case by (simp split: prod.splits)
next
  case (Cons x xs)
  show ?case
    by (simp add: Cons.IH split: prod.splits option.splits)
qed

lemma gpt_chunks_flat:
  "CHR 0x0A \<notin> set buffer \<Longrightarrow>
     gpt_chunks rnd entropies loads ts buffer cs =
       (case gpt_lines rnd entropies loads ts (fst (split_lines (buffer @ concat cs))) of
          (evs, st) \<Rightarrow> (evs, case st of None \<Rightarrow> Finished | Some oc \<Rightarrow> oc))"
proof (induction cs arbitrary: buffer entropies)
  case Nil
  then show ?case by (simp add: split_lines_no_newline)
next
  case (Cons c cs)
  obtain ls b' where sp: "split_lines (buffer @ c) = (ls, b')" by (cases "split_lines (buffer @ c)")
  have nb: "CHR 0x0A \<notin> set b'" using split_lines_rest[of "buffer @ c"] sp by simp
  have all: "fst (split_lines (buffer @ concat (c # cs))) = ls @ fst (split_lines (b' @ concat cs))"
    using split_lines_append[of "buffer @ c" "concat cs"] sp by simp
  show ?case
    unfolding all gpt_lines_append
    by (simp add: sp Cons.IH[OF nb] split: prod.splits option.splits)
qed

lemma gemini_accumulate_finish [simp]: "is_finish (gemini_accumulate st l) = is_finish st"
  by (simp add: gemini_accumulate_def)

lemma gemini_lines_append:
  "\<not> is_finish st \<Longrightarrow>
   gemini_lines rnd entropy loads ts model st (xs @ ys) =
     (case gemini_lines rnd entropy loads ts model st xs of
        (evs, st', Some e) \<Rightarrow> (evs, st', Some e)
      | (evs, st', None) \<Rightarrow>
          if is_finish st' then (evs, st', None)
          else (case gemini_lines rnd entropy loads ts model st' ys of
                  (evs', st'', err) \<Rightarrow> (evs @ evs', st'', err)))"
proof (induction xs arbitrary: st)
  case Nil
  then show ?case by (simp split: prod.splits)
next
  case (Cons x xs)
  show ?case
  proof (cases "x \<noteq> [] \<and> contains x finish_trigger")
    case True
    then show ?thesis by simp
  next
    case False
    then have nf: "(x \<noteq> [] \<and> contains x finish_trigger) = False" by simp
    obtain e1 err where t: "gemini_text rnd entropy loads ts model x = (e1, err)"
      by (cases "gemini_text rnd entropy loads ts model x")
    show ?thesis
    proof (cases err)
      case (Some e)
      then show ?thesis using t by (simp add: nf)
    next
      case None
      have a: "\<not> is_finish (gemini_accumulate st x)" using Cons.prems by simp
      obtain e2 st2 err2 where
        r: "gemini_lines rnd entropy loads ts model (gemini_accumulate st x) xs = (e2, st2, err2)"
        by (cases "gemini_lines rnd entropy loads ts model (gemini_accumulate st x) xs") auto
      have l: "gemini_lines rnd entropy loads ts model st (x # xs) = (e1 @ e2, st2, err2)"
        using t None r by (simp add: nf)
      have "gemini_lines rnd entropy loads ts model st (x # xs @ ys) =
              (case gemini_lines rnd entropy loads ts model (gemini_accumulate st x) (xs @ ys) of
                 (evs', st', err) \<Rightarrow> (e1 @ evs', st', err))"
        using t None by (simp add: nf)
      also have "\<dots> =
              (case (e2, st2, err2) of
                 (evs, st', Some e) \<Rightarrow> (e1 @ evs, st', Some e)
               | (evs, st', None) \<Rightarrow>
                   if is_finish st' then (e1 @ evs, st', None)
                   else (case gemini_lines rnd entropy loads ts model st' ys of
                           (evs', st'', err) \<Rightarrow> (e1 @ evs @ evs', st'', err)))"
        unfolding Cons.IH[OF a] r by (simp split: option.splits prod.splits)
      finally show ?thesis unfolding append_Cons l by (simp split: option.splits prod.splits)
    qed
  qed
qed

lemma gemini_chunks_flat:
  "CHR 0x0A \<notin> set buffer \<Longrightarrow> \<not> is_finish st \<Longrightarrow>
     gemini_chunks rnd entropy loads ts model st buffer cs =
       gemini_end rnd entropy loads ts model
         (gemini_lines rnd entropy loads ts model st (fst (split_lines (buffer @ concat cs))))"
proof (induction cs arbitrary: buffer st)
  case Nil
  then show ?case by (simp add: split_lines_no_newline gemini_end_def split: prod.splits)
next
  case (Cons c cs)
  obtain ls b' where sp: "split_lines (buffer @ c) = (ls, b')" by (cases "split_lines (buffer @ c)")
  have nb: "CHR 0x0A \<notin> set b'" using split_lines_rest[of "buffer @ c"] sp by simp
  have all: "fst (split_lines (buffer @ concat (c # cs))) = ls @ fst (split_lines (b' @ concat cs))"
    using split_lines_append[of "buffer @ c" "concat cs"] sp by simp
  obtain e1 st1 err where l: "gemini_lines rnd entropy loads ts model st ls = (e1, st1, err)"
    by (cases "gemini_lines rnd entropy loads ts model st ls") auto
  show ?case
  proof (cases err)
    case (Some e)
    then show ?thesis
      unfolding all gemini_lines_append[OF Cons.prems(2)]
      by (simp add: sp l gemini_end_def)
  next
    case None
    show ?thesis
    proof (cases "is_finish st1")
      case True
      then show ?thesis
        unfolding all gemini_lines_append[OF Cons.prems(2)]
        by (simp add: sp l None gemini_end_def)
    next
      case False
      show ?thesis
        unfolding all gemini_lines_append[OF Cons.prems(2)]
        by (simp add: sp l None False Cons.IH[OF nb False] gemini_end_def split: prod.splits option.splits)
    qed
  qed
qed

lemma contains_iff: "contains s sub \<longleftrightarrow> (\<exists>p q. s = p @ sub @ q)"
proof (induction s)
  case Nil
  then show ?case by auto
next
  case (Cons c cs)
  have a: "take (length sub) (c # cs) = sub \<longleftrightarrow> (\<exists>q. c # cs = sub @ q)"
    by (metis append_eq_conv_conj append_take_drop_id)
  show ?case
  proof
    assume "contains (c # cs) sub"
    then consider "take (length sub) (c # cs) = sub" | "contains cs sub" by auto
    then show "\<exists>p q. c # cs = p @ sub @ q"
    proof cases
      case 1
      then obtain q where "c # cs = sub @ q" using a by blast
      then show ?thesis by (intro exI[of _ "[]"] exI[of _ q]) simp
    next
      case 2
      then obtain p q where "cs = p @ sub @ q" using Cons.IH by blast
      then show ?thesis by (intro exI[of _ "c # p"] exI[of _ q]) simp
    qed
  next
    assume "\<exists>p q. c # cs = p @ sub @ q"
    then obtain p q where pq: "c # cs = p @ sub @ q" by blast
    show "contains (c # cs) sub"
    proof (cases p)
      case Nil
      then have "\<exists>q. c # cs = sub @ q" using pq by auto
      then have "take (length sub) (c # cs) = sub" using a by blast
      then show ?thesis by (simp only: contains.simps simp_thms)
    next
      case (Cons x xs)
      then have "cs = xs @ sub @ q" using pq by simp
      then show ?thesis using Cons.IH by auto
    qed
  qed
qed

lemma contains_mono:
  assumes "contains s (a @ b @ c)"
  shows "contains s b"
proof -
  from assms obtain p q where "s = p @ (a @ b @ c) @ q" unfolding contains_iff by blast
  then have "s = (p @ a) @ b @ (c @ q)" by simp
  then show ?thesis unfolding contains_iff by blast
qed

lemma hello_has_trigger:
  assumes "contains line hello_field"
  shows "contains line text_trigger"
proof -
  have e: "hello_field = [] @ text_trigger @ (''hello'' @ [bsl, bsl] @ ''nworld'' @ [dq])"
    by (simp add: hello_field_def text_trigger_def)
  from assms[unfolded e] show ?thesis by (rule contains_mono)
qed

lemma fetch_gemini_flat:
  assumes "200 \<le> status_code resp" and "status_code resp < 300"
  shows "fetch_gemini_response_stream rnd entropy loads ts model resp =
           gemini_end rnd entropy loads ts model
             (gemini_lines rnd entropy loads ts model gemini_start (upstream_lines resp))"
proof -
  have s: "\<not> is_finish gemini_start" by (simp add: gemini_start_def)
  have b: "CHR 0x0A \<notin> set []" by simp
  show ?thesis
    using gemini_chunks_flat[OF b s, of rnd entropy loads ts model "chunks resp"]
    by (simp add: fetch_gemini_response_stream_def check_response_ok[OF assms]
        upstream_lines_def gemini_start_def)
qed

lemma fetch_gpt_flat:
  assumes "200 \<le> status_code resp" and "status_code resp < 300"
  shows "fetch_gpt_response_stream rnd entropies loads ts resp =
           (case gpt_lines rnd entropies loads ts (upstream_lines resp) of
              (evs, st) \<Rightarrow> (evs, case st of None \<Rightarrow> Finished | Some oc \<Rightarrow> oc))"
proof -
  have b: "CHR 0x0A \<notin> set []" by simp
  show ?thesis
    using gpt_chunks_flat[OF b, of rnd entropies loads ts "chunks resp"]
    by (simp add: fetch_gpt_response_stream_def check_response_ok[OF assms] upstream_lines_def)
qed

lemma text_trigger_nonempty: "contains line text_trigger \<Longrightarrow> line \<noteq> []"
  by (auto simp: text_trigger_def)

lemma unescape_hello:
  "unescape_newlines (''hello'' @ [bsl] @ ''nworld'') = ''hello'' @ [CHR 0x0A] @ ''world''"
  "unescape_newlines (''hello'' @ [CHR 0x0A] @ ''world'') = ''hello'' @ [CHR 0x0A] @ ''world''"
  by (simp_all add: bsl_def)

lemma text_delta_emitted:
  "s \<noteq> [] \<Longrightarrow>
   generate_sse_response rnd entropy (JInt ts) model (JStr s) JNull JNull JNull JNull
       (JInt 0) (JInt 0) (JInt 0)
     = Inr (sse_line (text_delta_chunk rnd ts model s))"
  by (simp add: generate_sse_response_def sse_sample_data_def text_delta_chunk_def Let_def)

lemma gemini_text_emits:
  assumes t: "contains line text_trigger"
    and l: "loads (''{'' @ line @ ''}'') = Some (JObj d)"
    and d: "map_of d ''text'' = Some (JStr decoded)"
    and ne: "unescape_newlines decoded \<noteq> []"
  shows "gemini_text rnd entropy loads ts model line =
           ([EStr (sse_line (text_delta_chunk rnd ts model (unescape_newlines decoded)))], None)"
proof -
  have nl: "line \<noteq> []" using text_trigger_nonempty[OF t] .
  have g: "py_get (JObj d) ''text'' (JStr []) = Inr (JStr decoded)"
    using d by (simp add: get_default_def)
  show ?thesis
    unfolding gemini_text_def using t nl l g text_delta_emitted[OF ne]
    by (simp add: yield_sse_def del: py_get.simps)
qed

lemma gemini_text_silent:
  "\<not> contains line text_trigger \<Longrightarrow> gemini_text rnd entropy loads ts model line = ([], None)"
  by (simp add: gemini_text_def)

text \<open>The run of the Gemini adapter, cut at one upstream line: the lines before it were
  processed, and neither raised nor finished.\<close>

lemma gemini_lines_at:
  assumes "gemini_lines rnd entropy loads ts model gemini_start pre = (evs_pre, st, None)"
    and "\<not> is_finish st"
  shows "gemini_lines rnd entropy loads ts model gemini_start (pre @ line # post) =
           (case gemini_lines rnd entropy loads ts model st (line # post) of
              (evs', st', err) \<Rightarrow> (evs_pre @ evs', st', err))"
proof -
  have s: "\<not> is_finish gemini_start" by (simp add: gemini_start_def)
  show ?thesis
    unfolding gemini_lines_append[OF s] assms(1) using assms(2) by simp
qed

text \<open>
  Claim C8 (as amended). Take a 2xx response to the Gemini adapter and any one of its complete
  upstream lines, in whatever chunk it arrives, such that the lines before it were processed
  without an exception and without a finish line. If the line has the trigger \<open>"text": "\<close>
  and not the finish trigger, and decodes to the text hello, backslash, n, world (or hello,
  newline, world), it contributes exactly one item, the text delta whose content is hello,
  newline, world, between the items of the lines before and after it. If the line is not empty
  and contains \<open>"finishReason": "\<close> (colon, space, quote, as the upstream pretty-prints it),
  processing ends with it: the run yields the items of the lines before, then what follows the
  chunk loop, whatever comes after the line. A line with neither trigger, such as one that has
  the field as \<open>"finishReason":"STOP"\<close> without the space, contributes nothing and does not end
  the processing: the lines after it are processed.
\<close>

theorem gemini_text_and_finish:
  assumes "200 \<le> status_code resp" and "status_code resp < 300"
    and "upstream_lines resp = pre @ line # post"
    and "gemini_lines rnd entropy loads timestamp model gemini_start pre = (evs_pre, st, None)"
    and "\<not> is_finish st"
    and "gemini_lines rnd entropy loads timestamp model (gemini_accumulate st line) post
           = (evs_post, st', err)"
  shows "(contains line text_trigger \<and> \<not> contains line finish_trigger \<and>
          loads (''{'' @ line @ ''}'') = Some (JObj d) \<and> map_of d ''text'' = Some (JStr decoded) \<and>
          (decoded = ''hello'' @ [bsl] @ ''nworld'' \<or> decoded = ''hello'' @ [CHR 0x0A] @ ''world'')
          \<longrightarrow>
            fetch_gemini_response_stream rnd entropy loads timestamp model resp =
              gemini_end rnd entropy loads timestamp model
                (evs_pre @
                 EStr (sse_line (text_delta_chunk rnd timestamp model
                                   (''hello'' @ [CHR 0x0A] @ ''world''))) # evs_post,
                 st', err)) \<and>
         (line \<noteq> [] \<and> contains line finish_trigger \<longrightarrow>
            fetch_gemini_response_stream rnd entropy loads timestamp model resp =
              gemini_end rnd entropy loads timestamp model
                (evs_pre, st\<lparr>is_finish := True\<rparr>, None)) \<and>
         (\<not> contains line finish_trigger \<and> \<not> contains line text_trigger \<longrightarrow>
            fetch_gemini_response_stream rnd entropy loads timestamp model resp =
              gemini_end rnd entropy loads timestamp model (evs_pre @ evs_post, st', err))"
proof (intro conjI impI)
  note flat = fetch_gemini_flat[OF assms(1) assms(2), of rnd entropy loads timestamp model,
      unfolded assms(3) gemini_lines_at[OF assms(4) assms(5)]]
  {
    assume a: "contains line text_trigger \<and> \<not> contains line finish_trigger \<and>
          loads (''{'' @ line @ ''}'') = Some (JObj d) \<and> map_of d ''text'' = Some (JStr decoded) \<and>
          (decoded = ''hello'' @ [bsl] @ ''nworld'' \<or> decoded = ''hello'' @ [CHR 0x0A] @ ''world'')"
    then have u: "unescape_newlines decoded = ''hello'' @ [CHR 0x0A] @ ''world''"
      using unescape_hello by auto
    then have ne: "unescape_newlines decoded \<noteq> []" by simp
    have nf: "(line \<noteq> [] \<and> contains line finish_trigger) = False" using a by simp
    have t: "gemini_text rnd entropy loads timestamp model line =
               ([EStr (sse_line (text_delta_chunk rnd timestamp model
                                   (''hello'' @ [CHR 0x0A] @ ''world'')))], None)"
      using gemini_text_emits[where line = line and loads = loads and d = d and decoded = decoded
          and rnd = rnd and entropy = entropy and ts = timestamp and model = model] a ne
      unfolding u by blast
    show "fetch_gemini_response_stream rnd entropy loads timestamp model resp =
              gemini_end rnd entropy loads timestamp model
                (evs_pre @
                 EStr (sse_line (text_delta_chunk rnd timestamp model
                                   (''hello'' @ [CHR 0x0A] @ ''world''))) # evs_post,
                 st', err)"
      unfolding flat by (simp add: nf t assms(6))
  }
  {
    assume a: "line \<noteq> [] \<and> contains line finish_trigger"
    show "fetch_gemini_response_stream rnd entropy loads timestamp model resp =
              gemini_end rnd entropy loads timestamp model
                (evs_pre, st\<lparr>is_finish := True\<rparr>, None)"
      unfolding flat using a by simp
  }
  {
    assume a: "\<not> contains line finish_trigger \<and> \<not> contains line text_trigger"
    then have nf: "(line \<noteq> [] \<and> contains line finish_trigger) = False" by simp
    have t: "gemini_text rnd entropy loads timestamp model line = ([], None)"
      using a gemini_text_silent by blast
    show "fetch_gemini_response_stream rnd entropy loads timestamp model resp =
              gemini_end rnd entropy loads timestamp model (evs_pre @ evs_post, st', err)"
      unfolding flat by (simp add: nf t assms(6))
  }
qed

lemma hello_facts:
  "contains hello_field hello_field" "\<not> contains hello_field finish_trigger"
  "\<not> contains hello_field function_call_trigger" "CHR 0x0A \<notin> set hello_field"
  "demo_loads (''{'' @ hello_field @ ''}'') = Some (JObj [(''text'', JStr (''hello'' @ [bsl] @ ''nworld''))])"
  by (simp_all add: hello_field_def finish_trigger_def function_call_trigger_def demo_loads_def
      dq_def bsl_def)

lemma late_facts:
  "contains late_field text_trigger" "\<not> contains late_field finish_trigger"
  "\<not> contains late_field function_call_trigger" "CHR 0x0A \<notin> set late_field"
  "demo_loads (''{'' @ late_field @ ''}'') = Some (JObj [(''text'', JStr ''late'')])"
  by (simp_all add: late_field_def hello_field_def text_trigger_def finish_trigger_def
      function_call_trigger_def demo_loads_def dq_def bsl_def)

lemma compact_facts:
  "\<not> contains compact_finish_field finish_trigger" "\<not> contains compact_finish_field text_trigger"
  "\<not> contains compact_finish_field function_call_trigger" "CHR 0x0A \<notin> set compact_finish_field"
  "contains compact_finish_field ([dq] @ ''finishReason'' @ [dq] @ '':'')"
  by (simp_all add: compact_finish_field_def text_trigger_def finish_trigger_def
      function_call_trigger_def dq_def)

lemma pretty_facts:
  "contains pretty_finish_field finish_trigger" "CHR 0x0A \<notin> set pretty_finish_field"
  "pretty_finish_field \<noteq> []"
  by (simp_all add: pretty_finish_field_def finish_trigger_def dq_def)

lemma upstream_lines_split:
  "upstream_lines resp_split = [hello_field, pretty_finish_field, late_field]"
  by (simp add: upstream_lines_def resp_split_def hello_field_def pretty_finish_field_def
      late_field_def dq_def bsl_def)

lemma upstream_lines_compact:
  "upstream_lines resp_compact_finish = [compact_finish_field, late_field]"
  by (simp add: upstream_lines_def resp_compact_finish_def compact_finish_field_def
      late_field_def dq_def)

lemma upstream_lines_simple:
  "upstream_lines resp_hello = [hello_field]"
  "upstream_lines resp_done = [''data: [DONE]'']"
  "upstream_lines resp_no_done = [''data: {}'']"
  "upstream_lines resp_malformed = [''data: oops'']"
  "upstream_lines resp_message = [''data: {}'', ''data: '' @ message_text]"
  by (simp_all add: upstream_lines_def resp_hello_def resp_done_def resp_no_done_def
      resp_malformed_def resp_message_def message_text_def hello_field_def dq_def bsl_def)

lemma status_ok:
  "200 \<le> status_code resp_split" "status_code resp_split < 300"
  "200 \<le> status_code resp_compact_finish" "status_code resp_compact_finish < 300"
  "200 \<le> status_code resp_hello" "status_code resp_hello < 300"
  "200 \<le> status_code resp_done" "status_code resp_done < 300"
  "200 \<le> status_code resp_no_done" "status_code resp_no_done < 300"
  "200 \<le> status_code resp_malformed" "status_code resp_malformed < 300"
  "200 \<le> status_code resp_message" "status_code resp_message < 300"
  by (simp_all add: resp_split_def resp_compact_finish_def resp_hello_def resp_done_def
      resp_no_done_def resp_malformed_def resp_message_def)

lemma gemini_start_accumulate:
  "\<not> contains line function_call_trigger \<Longrightarrow> gemini_accumulate gemini_start line = gemini_start"
  by (simp add: gemini_accumulate_def gemini_start_def)

lemma gemini_end_plain:
  "\<not> need_function_call st \<Longrightarrow>
     gemini_end rnd entropy loads ts model (evs, st, None) = (evs @ [EStr done_line], Finished)"
  by (simp add: gemini_end_def gemini_finish_def)

lemma gemini_late_text:
  "gemini_text half_rnd zero_entropy demo_loads 1700000000 (JStr ''gemini-pro'') late_field =
      ([EStr (sse_line (text_delta_chunk half_rnd 1700000000 (JStr ''gemini-pro'') ''late''))], None)"
  using gemini_text_emits[where line = late_field and loads = demo_loads
        and d = "[(''text'', JStr ''late'')]" and decoded = "''late''" and rnd = half_rnd
        and entropy = zero_entropy and ts = 1700000000 and model = "JStr ''gemini-pro''",
        OF late_facts(1) late_facts(5)]
  by simp

lemma gemini_hello_text:
  "gemini_text half_rnd zero_entropy demo_loads 1700000000 (JStr ''gemini-pro'') hello_field =
      ([EStr (sse_line (text_delta_chunk half_rnd 1700000000 (JStr ''gemini-pro'')
                (''hello'' @ [CHR 0x0A] @ ''world'')))], None)"
proof -
  have m: "map_of [(''text'', JStr (''hello'' @ [bsl] @ ''nworld''))] ''text''
             = Some (JStr (''hello'' @ [bsl] @ ''nworld''))" by simp
  have ne: "unescape_newlines (''hello'' @ [bsl] @ ''nworld'') \<noteq> []"
    unfolding unescape_hello(1) by simp
  show ?thesis
    using gemini_text_emits[where line = hello_field and loads = demo_loads
        and d = "[(''text'', JStr (''hello'' @ [bsl] @ ''nworld''))]"
        and decoded = "''hello'' @ [bsl] @ ''nworld''" and rnd = half_rnd
        and entropy = zero_entropy and ts = 1700000000 and model = "JStr ''gemini-pro''",
        OF hello_has_trigger[OF hello_facts(1)] hello_facts(5) m ne]
    unfolding unescape_hello(1) .
qed

lemma gemini_lines_examples:
  "gemini_lines half_rnd zero_entropy demo_loads 1700000000 (JStr ''gemini-pro'') gemini_start [] =
     ([], gemini_start, None)"
  "gemini_lines half_rnd zero_entropy demo_loads 1700000000 (JStr ''gemini-pro'') gemini_start
     [hello_field] =
     ([EStr (sse_line (text_delta_chunk half_rnd 1700000000 (JStr ''gemini-pro'')
                (''hello'' @ [CHR 0x0A] @ ''world'')))], gemini_start, None)"
  "gemini_lines half_rnd zero_entropy demo_loads 1700000000 (JStr ''gemini-pro'') gemini_start
     [pretty_finish_field, late_field] = ([], gemini_start\<lparr>is_finish := True\<rparr>, None)"
  "gemini_lines half_rnd zero_entropy demo_loads 1700000000 (JStr ''gemini-pro'') gemini_start
     [late_field] =
     ([EStr (sse_line (text_delta_chunk half_rnd 1700000000 (JStr ''gemini-pro'') ''late''))],
      gemini_start, None)"
  using hello_facts(2) late_facts(2) pretty_facts
  by (simp_all add: gemini_hello_text gemini_late_text
      gemini_start_accumulate[OF hello_facts(3)] gemini_start_accumulate[OF late_facts(3)])

lemma gpt_lines_finished:
  assumes "gpt_lines rnd entropies loads ts ls = (evs, st)"
    and "(case st of None \<Rightarrow> Finished | Some oc \<Rightarrow> oc) = Finished"
  shows "((\<exists>l \<in> set ls. is_done_line l) \<longrightarrow> ends_with_single_done evs) \<and>
         ((\<forall>l \<in> set ls. \<not> is_done_line l) \<longrightarrow> no_done evs)"
proof (cases st)
  case None
  then show ?thesis using gpt_lines_outcome[OF assms(1)] by auto
next
  case (Some oc)
  then have "st = Some Finished" using assms(2) by simp
  then show ?thesis using gpt_lines_outcome[OF assms(1)] single_done_snoc by auto
qed

lemma gpt_lines_raised:
  assumes "gpt_lines rnd entropies loads ts ls = (evs, st)"
    and "(case st of None \<Rightarrow> Finished | Some oc \<Rightarrow> oc) \<noteq> Finished"
  shows "no_done evs"
proof -
  have "st \<noteq> Some Finished" using assms(2) by auto
  then show ?thesis using gpt_lines_outcome[OF assms(1)] by blast
qed

text \<open>
  Claim C2 (as amended). On a 2xx response, a run of the Gemini adapter or of the Claude adapter
  that completes yields the terminator \<open>data: [DONE]\<close> exactly once, as its last item. A
  completed run of the OpenAI-compatible adapter yields the terminator exactly once, as its last
  item, when one of the complete upstream lines is a terminator line, and does not yield it when
  none is: it only passes the terminator of the upstream on. A run of any of the three that an
  exception ends has yielded no terminator.
\<close>

theorem adapters_terminator:
  assumes "200 \<le> status_code resp" and "status_code resp < 300"
  shows "(fetch_gemini_response_stream rnd entropy loads timestamp model resp
            = (evs_gemini, oc_gemini) \<longrightarrow>
            (oc_gemini = Finished \<longrightarrow> ends_with_single_done evs_gemini) \<and>
            (oc_gemini \<noteq> Finished \<longrightarrow> no_done evs_gemini)) \<and>
         (fetch_claude_response_stream rnd entropy loads timestamp model resp
            = (evs_claude, oc_claude) \<longrightarrow>
            (oc_claude = Finished \<longrightarrow> ends_with_single_done evs_claude) \<and>
            (oc_claude \<noteq> Finished \<longrightarrow> no_done evs_claude)) \<and>
         (fetch_gpt_response_stream rnd entropies loads timestamp resp = (evs_gpt, oc_gpt) \<longrightarrow>
            (oc_gpt = Finished \<and> (\<exists>l \<in> set (upstream_lines resp). is_done_line l)
               \<longrightarrow> ends_with_single_done evs_gpt) \<and>
            (oc_gpt = Finished \<and> (\<forall>l \<in> set (upstream_lines resp). \<not> is_done_line l)
               \<longrightarrow> no_done evs_gpt) \<and>
            (oc_gpt \<noteq> Finished \<longrightarrow> no_done evs_gpt))"
proof (intro conjI impI)
  assume "fetch_gemini_response_stream rnd entropy loads timestamp model resp
            = (evs_gemini, oc_gemini)"
  then have g: "gemini_chunks rnd entropy loads timestamp model
       \<lparr>revicing_function_call = False, function_full_response = ''{'',
        need_function_call = False, is_finish = False\<rparr> [] (chunks resp) = (evs_gemini, oc_gemini)"
    by (simp add: fetch_gemini_response_stream_def check_response_ok[OF assms])
  show "oc_gemini = Finished \<Longrightarrow> ends_with_single_done evs_gemini"
    using g gemini_chunks_done single_done_snoc by blast
  show "oc_gemini \<noteq> Finished \<Longrightarrow> no_done evs_gemini"
    using g gemini_chunks_raised by (cases oc_gemini) auto
next
  assume "fetch_claude_response_stream rnd entropy loads timestamp model resp
            = (evs_claude, oc_claude)"
  then have c: "claude_chunks rnd entropy loads timestamp model (JInt 0) [] (chunks resp)
                  = (evs_claude, oc_claude)"
    by (simp add: fetch_claude_response_stream_def check_response_ok[OF assms])
  show "oc_claude = Finished \<Longrightarrow> ends_with_single_done evs_claude"
    using c claude_chunks_done single_done_snoc by blast
  show "oc_claude \<noteq> Finished \<Longrightarrow> no_done evs_claude"
    using c claude_chunks_raised by (cases oc_claude) auto
next
  assume f: "fetch_gpt_response_stream rnd entropies loads timestamp resp = (evs_gpt, oc_gpt)"
  obtain evs st where l: "gpt_lines rnd entropies loads timestamp (upstream_lines resp) = (evs, st)"
    by (cases "gpt_lines rnd entropies loads timestamp (upstream_lines resp)")
  from f[unfolded fetch_gpt_flat[OF assms] l]
  have e: "evs_gpt = evs" "oc_gpt = (case st of None \<Rightarrow> Finished | Some oc \<Rightarrow> oc)" by auto
  show "oc_gpt = Finished \<and> (\<exists>l \<in> set (upstream_lines resp). is_done_line l)
          \<Longrightarrow> ends_with_single_done evs_gpt"
    using gpt_lines_finished[OF l] e by auto
  show "oc_gpt = Finished \<and> (\<forall>l \<in> set (upstream_lines resp). \<not> is_done_line l)
          \<Longrightarrow> no_done evs_gpt"
    using gpt_lines_finished[OF l] e by auto
  show "oc_gpt \<noteq> Finished \<Longrightarrow> no_done evs_gpt"
    using gpt_lines_raised[OF l] e by auto
qed

lemma gemini_hello_events:
  "fetch_gemini_response_stream half_rnd zero_entropy demo_loads 1700000000 (JStr ''gemini-pro'') resp_hello =
     ([EStr (sse_line (text_delta_chunk half_rnd 1700000000 (JStr ''gemini-pro'')
               (''hello'' @ [CHR 0x0A] @ ''world''))), EStr done_line], Finished)"
  unfolding fetch_gemini_flat[OF status_ok(5) status_ok(6)] upstream_lines_simple
    gemini_lines_examples
  by (simp add: gemini_end_plain gemini_start_def)

lemma claude_hello_events:
  "fetch_claude_response_stream half_rnd zero_entropy demo_loads 1700000000 (JStr ''claude-3'') resp_hello =
     ([EStr done_line], Finished)"
proof -
  have ns: "\<not> starts_with hello_field ''data:''"
    by (simp add: starts_with_def hello_field_def dq_def)
  have sp: "split_lines (hello_field @ [CHR 0x0A]) = ([hello_field], [])"
    using upstream_lines_simple(1) split_lines_rest[of "hello_field @ [CHR 0x0A]"]
    by (simp add: upstream_lines_def resp_hello_def hello_field_def dq_def bsl_def)
  show ?thesis
    by (simp add: fetch_claude_response_stream_def check_response_def resp_hello_def
        sp claude_line_def ns)
qed

lemma claude_malformed_events:
  "fetch_claude_response_stream half_rnd zero_entropy demo_loads 1700000000 (JStr ''claude-3'') resp_malformed =
     ([], Raised JSONDecodeError)"
proof -
  have l: "demo_loads ''oops'' = None"
    by (simp add: demo_loads_def hello_field_def late_field_def error_bad_text_def)
  show ?thesis
    by (simp add: fetch_claude_response_stream_def check_response_def resp_malformed_def
        claude_line_def starts_with_def lstrip_chars_def l)
qed

lemma done_line_facts:
  "is_done_line ''data: [DONE]''" "\<not> is_done_line ''data: {}''"
  by (simp_all add: is_done_line_def starts_with_def lstrip_chars_def py_strip_def is_space_def)

lemma gpt_done_events:
  "fetch_gpt_response_stream half_rnd (\<lambda>i. zero_entropy) demo_loads 1700000000 resp_done = ([EStr done_line], Finished)"
  unfolding fetch_gpt_flat[OF status_ok(7) status_ok(8)] upstream_lines_simple
  by (simp add: gpt_line_done_line[OF done_line_facts(1)])

lemma gpt_passed_line:
  "loads ''{}'' = Some (JObj []) \<Longrightarrow>
     gpt_line half_rnd entropy loads 1700000000 ''data: {}'' = ([EStr passed_line], None)"
  unfolding gpt_line_def
  by (simp add: starts_with_def lstrip_chars_def half_id py_strip_def is_space_def
      passed_line_def end_of_line_def py_encode_str_def py_escape_char_def dq_def bsl_def Let_def)

lemma gpt_no_done_events:
  "fetch_gpt_response_stream half_rnd (\<lambda>i. zero_entropy) demo_loads 1700000000 resp_no_done = ([EStr passed_line], Finished)"
proof -
  have ld: "demo_loads ''{}'' = Some (JObj [])"
    by (simp add: demo_loads_def hello_field_def late_field_def error_bad_text_def)
  show ?thesis
    unfolding fetch_gpt_flat[OF status_ok(9) status_ok(10)] upstream_lines_simple
    by (simp add: gpt_passed_line[of demo_loads, OF ld])
qed

lemma passed_line_not_done: "passed_line \<noteq> done_line"
  by (simp add: passed_line_def done_line_def)

text \<open>
  Witness for C2: the Gemini and Claude adapters on a body of one text line, the
  OpenAI-compatible adapter on a body that is the upstream terminator and on a body without one.
\<close>

theorem adapters_terminator_witness:
  "200 \<le> status_code resp_hello \<and> status_code resp_hello < 300 \<and>
   200 \<le> status_code resp_done \<and> status_code resp_done < 300 \<and>
   200 \<le> status_code resp_no_done \<and> status_code resp_no_done < 300 \<and>
   fetch_gemini_response_stream half_rnd zero_entropy demo_loads 1700000000 (JStr ''gemini-pro'') resp_hello =
     ([EStr (sse_line (text_delta_chunk half_rnd 1700000000 (JStr ''gemini-pro'')
               (''hello'' @ [CHR 0x0A] @ ''world''))), EStr done_line], Finished) \<and>
   ends_with_single_done
     [EStr (sse_line (text_delta_chunk half_rnd 1700000000 (JStr ''gemini-pro'')
               (''hello'' @ [CHR 0x0A] @ ''world''))), EStr done_line] \<and>
   fetch_claude_response_stream half_rnd zero_entropy demo_loads 1700000000 (JStr ''claude-3'') resp_hello =
     ([EStr done_line], Finished) \<and>
   upstream_lines resp_done = [''data: [DONE]''] \<and> is_done_line ''data: [DONE]'' \<and>
   fetch_gpt_response_stream half_rnd (\<lambda>i. zero_entropy) demo_loads 1700000000 resp_done = ([EStr done_line], Finished) \<and>
   ends_with_single_done [EStr done_line] \<and>
   upstream_lines resp_no_done = [''data: {}''] \<and> \<not> is_done_line ''data: {}'' \<and>
   fetch_gpt_response_stream half_rnd (\<lambda>i. zero_entropy) demo_loads 1700000000 resp_no_done = ([EStr passed_line], Finished) \<and>
   no_done [EStr passed_line]"
proof -
  note g = adapters_terminator[OF status_ok(5) status_ok(6), where rnd = half_rnd
      and entropy = zero_entropy and loads = demo_loads
      and timestamp = 1700000000 and model = "JStr ''gemini-pro''"
      and evs_gemini = "[EStr (sse_line (text_delta_chunk half_rnd 1700000000 (JStr ''gemini-pro'')
               (''hello'' @ [CHR 0x0A] @ ''world''))), EStr done_line]" and oc_gemini = Finished]
  note c = adapters_terminator[OF status_ok(5) status_ok(6), where rnd = half_rnd
      and entropy = zero_entropy and loads = demo_loads
      and timestamp = 1700000000 and model = "JStr ''claude-3''" and evs_claude = "[EStr done_line]"
      and oc_claude = Finished]
  note o = adapters_terminator[OF status_ok(7) status_ok(8), where rnd = half_rnd
      and entropies = "\<lambda>i. zero_entropy" and loads = demo_loads
      and timestamp = 1700000000 and evs_gpt = "[EStr done_line]" and oc_gpt = Finished]
  note n = adapters_terminator[OF status_ok(9) status_ok(10), where rnd = half_rnd
      and entropies = "\<lambda>i. zero_entropy" and loads = demo_loads
      and timestamp = 1700000000 and evs_gpt = "[EStr passed_line]" and oc_gpt = Finished]
  have e1: "ends_with_single_done
     [EStr (sse_line (text_delta_chunk half_rnd 1700000000 (JStr ''gemini-pro'')
               (''hello'' @ [CHR 0x0A] @ ''world''))), EStr done_line]"
    using g gemini_hello_events by blast
  have e2: "ends_with_single_done [EStr done_line]"
    using o gpt_done_events upstream_lines_simple(2) done_line_facts(1) by simp
  have e3: "no_done [EStr passed_line]"
    using n gpt_no_done_events upstream_lines_simple(3) done_line_facts(2) by simp
  show ?thesis
    using e1 e2 e3 status_ok gemini_hello_events claude_hello_events gpt_done_events
      gpt_no_done_events upstream_lines_simple done_line_facts
    by simp
qed

text \<open>
  Counterexample to C2 as stated: two upstream answers with status 200. The first sends the line
  \<open>data: {}\<close> and closes without a \<open>[DONE]\<close> line: the OpenAI-compatible adapter yields the
  rewritten line and ends, and no terminator is emitted. The second sends a line that is not JSON:
  the Claude adapter raises JSONDecodeError and has emitted nothing.
\<close>

theorem gpt_without_done_counterexample:
  "200 \<le> status_code resp_no_done \<and> status_code resp_no_done < 300 \<and>
   fetch_gpt_response_stream half_rnd (\<lambda>i. zero_entropy) demo_loads 1700000000 resp_no_done = ([EStr passed_line], Finished) \<and>
   \<not> ends_with_single_done [EStr passed_line] \<and>
   200 \<le> status_code resp_malformed \<and> status_code resp_malformed < 300 \<and>
   fetch_claude_response_stream half_rnd zero_entropy demo_loads 1700000000 (JStr ''claude-3'') resp_malformed =
     ([], Raised JSONDecodeError) \<and>
   \<not> ends_with_single_done []"
  using gpt_no_done_events claude_malformed_events passed_line_not_done status_ok
  by (simp add: ends_with_single_done_def)

text \<open>
  Witness for C8: a text line that arrives in two chunks, followed by a finish line and a
  further text line; and a finish field without the space followed by a text line.
\<close>

theorem gemini_text_and_finish_witness:
  "200 \<le> status_code resp_split \<and> status_code resp_split < 300 \<and>
   upstream_lines resp_split = [hello_field, pretty_finish_field, late_field] \<and>
   contains hello_field text_trigger \<and> \<not> contains hello_field finish_trigger \<and>
   demo_loads (''{'' @ hello_field @ ''}'') = Some (JObj [(''text'', JStr (''hello'' @ [bsl] @ ''nworld''))]) \<and>
   contains pretty_finish_field finish_trigger \<and>
   fetch_gemini_response_stream half_rnd zero_entropy demo_loads 1700000000 (JStr ''gemini-pro'') resp_split =
     ([EStr (sse_line (text_delta_chunk half_rnd 1700000000 (JStr ''gemini-pro'')
               (''hello'' @ [CHR 0x0A] @ ''world''))), EStr done_line], Finished) \<and>
   upstream_lines resp_compact_finish = [compact_finish_field, late_field] \<and>
   \<not> contains compact_finish_field finish_trigger \<and> \<not> contains compact_finish_field text_trigger \<and>
   fetch_gemini_response_stream half_rnd zero_entropy demo_loads 1700000000 (JStr ''gemini-pro'') resp_compact_finish =
     ([EStr (sse_line (text_delta_chunk half_rnd 1700000000 (JStr ''gemini-pro'') ''late'')), EStr done_line], Finished)"
proof -
  have m: "map_of [(''text'', JStr (''hello'' @ [bsl] @ ''nworld''))] ''text''
             = Some (JStr (''hello'' @ [bsl] @ ''nworld''))" by simp
  have tr: "contains hello_field text_trigger" using hello_has_trigger[OF hello_facts(1)] .
  have s: "\<not> is_finish gemini_start" "\<not> need_function_call gemini_start"
    "\<not> need_function_call (gemini_start\<lparr>is_finish := True\<rparr>)"
    by (simp_all add: gemini_start_def)
  have u1: "upstream_lines resp_split = [] @ hello_field # [pretty_finish_field, late_field]"
    using upstream_lines_split by simp
  have u2: "upstream_lines resp_split = [hello_field] @ pretty_finish_field # [late_field]"
    using upstream_lines_split by simp
  have u3: "upstream_lines resp_compact_finish = [] @ compact_finish_field # [late_field]"
    using upstream_lines_compact by simp
  have p1: "gemini_lines half_rnd zero_entropy demo_loads 1700000000 (JStr ''gemini-pro'')
              (gemini_accumulate gemini_start hello_field) [pretty_finish_field, late_field]
            = ([], gemini_start\<lparr>is_finish := True\<rparr>, None)"
    unfolding gemini_start_accumulate[OF hello_facts(3)] by (rule gemini_lines_examples(3))
  obtain ep sp ep' where p2': "gemini_lines half_rnd zero_entropy demo_loads 1700000000
              (JStr ''gemini-pro'') (gemini_accumulate gemini_start pretty_finish_field) [late_field]
            = (ep, sp, ep')"
    by (cases "gemini_lines half_rnd zero_entropy demo_loads 1700000000
              (JStr ''gemini-pro'') (gemini_accumulate gemini_start pretty_finish_field) [late_field]")
       auto
  have p3: "gemini_lines half_rnd zero_entropy demo_loads 1700000000 (JStr ''gemini-pro'')
              (gemini_accumulate gemini_start compact_finish_field) [late_field]
            = ([EStr (sse_line (text_delta_chunk half_rnd 1700000000 (JStr ''gemini-pro'') ''late''))], gemini_start, None)"
    unfolding gemini_start_accumulate[OF compact_facts(3)] by (rule gemini_lines_examples(4))
  note a = gemini_text_and_finish[OF status_ok(1) status_ok(2) u1 gemini_lines_examples(1) s(1) p1,
      where d = "[(''text'', JStr (''hello'' @ [bsl] @ ''nworld''))]"
        and decoded = "''hello'' @ [bsl] @ ''nworld''"]
  note b = gemini_text_and_finish[OF status_ok(1) status_ok(2) u2 gemini_lines_examples(2) s(1) p2']
  note c = gemini_text_and_finish[OF status_ok(3) status_ok(4) u3 gemini_lines_examples(1) s(1) p3]
  have r1: "fetch_gemini_response_stream half_rnd zero_entropy demo_loads 1700000000 (JStr ''gemini-pro'') resp_split =
     ([EStr (sse_line (text_delta_chunk half_rnd 1700000000 (JStr ''gemini-pro'')
               (''hello'' @ [CHR 0x0A] @ ''world''))), EStr done_line], Finished)"
    using a tr hello_facts(2) hello_facts(5) m by (simp add: gemini_end_plain[OF s(3)])
  have r2: "fetch_gemini_response_stream half_rnd zero_entropy demo_loads 1700000000 (JStr ''gemini-pro'') resp_split =
     ([EStr (sse_line (text_delta_chunk half_rnd 1700000000 (JStr ''gemini-pro'')
               (''hello'' @ [CHR 0x0A] @ ''world''))), EStr done_line], Finished)"
    using b pretty_facts by (simp add: gemini_end_plain[OF s(3)])
  have r3: "fetch_gemini_response_stream half_rnd zero_entropy demo_loads 1700000000 (JStr ''gemini-pro'') resp_compact_finish =
     ([EStr (sse_line (text_delta_chunk half_rnd 1700000000 (JStr ''gemini-pro'') ''late'')), EStr done_line], Finished)"
    using c compact_facts(1) compact_facts(2) by (simp add: gemini_end_plain[OF s(2)])
  show ?thesis
    using r1 r2 r3 status_ok upstream_lines_split upstream_lines_compact tr hello_facts
      pretty_facts compact_facts
    by simp
qed

lemma gemini_compact_events:
  "fetch_gemini_response_stream half_rnd zero_entropy demo_loads 1700000000 (JStr ''gemini-pro'') resp_compact_finish =
     ([EStr (sse_line (text_delta_chunk half_rnd 1700000000 (JStr ''gemini-pro'') ''late'')), EStr done_line], Finished)"
proof -
  have gl: "gemini_lines half_rnd zero_entropy demo_loads 1700000000 (JStr ''gemini-pro'')
              gemini_start [compact_finish_field, late_field] =
            ([EStr (sse_line (text_delta_chunk half_rnd 1700000000 (JStr ''gemini-pro'') ''late''))], gemini_start, None)"
    using compact_facts(1) late_facts(2)
    by (simp add: gemini_text_silent[OF compact_facts(2)] gemini_late_text
        gemini_start_accumulate[OF compact_facts(3)] gemini_start_accumulate[OF late_facts(3)])
  show ?thesis
    unfolding fetch_gemini_flat[OF status_ok(3) status_ok(4)] upstream_lines_compact gl
    by (simp add: gemini_end_plain gemini_start_def)
qed

text \<open>
  Counterexample to C8 as stated: the line \<open>"finishReason":"STOP"\<close> contains the field
  \<open>"finishReason":\<close> but not the trigger of the adapter (which has a space after the colon); the
  text line after it is still emitted.
\<close>

theorem gemini_compact_finish_counterexample:
  "contains compact_finish_field ([dq] @ ''finishReason'' @ [dq] @ '':'') \<and>
   fetch_gemini_response_stream half_rnd zero_entropy demo_loads 1700000000 (JStr ''gemini-pro'') resp_compact_finish =
     ([EStr (sse_line (text_delta_chunk half_rnd 1700000000 (JStr ''gemini-pro'') ''late'')), EStr done_line], Finished)"
  using compact_facts(5) gemini_compact_events by blast

lemma check_dict_error:
  assumes "''error'' \<in> fst ` set d"
    and "\<not> is_placeholder_error (get_default d ''error'' JNull)"
  shows "check_dict py_str engine stream error_triggers d =
           Some (HTTPException (get_default d ''status_code'' (JInt 500))
                   (take 300 (format_value py_str (get_default d ''details'' (JStr (py_str (JObj d)))))))"
  using assms by (simp add: check_dict_def Let_def)

lemma check_dict_no_http:
  assumes "''error'' \<notin> fst ` set d \<or> is_placeholder_error (get_default d ''error'' JNull)"
  shows "check_dict py_str engine stream error_triggers d \<noteq> Some (HTTPException sc detail)"
  using assms by (auto simp: check_dict_def Let_def split: if_splits)

text \<open>
  Claim C4 (as amended). An inspected dict that has the key \<open>error\<close> with a value other than
  \<open>{"message": "", "type": "", "param": "", "code": None}\<close> makes the content check, and the
  wrapper when it is the first item, raise HTTPException with the status code of the key
  \<open>status_code\<close> (500 when absent) and the details cut to at most 300 characters. The same holds
  for a string item that decodes to such a dict, when it is not the terminator and no error
  trigger occurs in it. A dict without the key \<open>error\<close>, or with exactly that placeholder value,
  raises no HTTPException.
\<close>

theorem error_object_raises_http:
  "(''error'' \<in> fst ` set d \<and> \<not> is_placeholder_error (get_default d ''error'' JNull) \<longrightarrow>
      check_response_content loads unicode_escape decode py_str (EDict d) engine stream
          error_triggers =
        Inl (HTTPException (get_default d ''status_code'' (JInt 500))
               (take 300 (format_value py_str (get_default d ''details'' (JStr (py_str (JObj d))))))) \<and>
      error_handling_wrapper loads unicode_escape decode py_str (EDict d # rest) engine stream
          error_triggers =
        Inl (HTTPException (get_default d ''status_code'' (JInt 500))
               (take 300 (format_value py_str (get_default d ''details'' (JStr (py_str (JObj d))))))) \<and>
      length (take 300 (format_value py_str (get_default d ''details'' (JStr (py_str (JObj d))))))
        \<le> 300 \<and>
      (c = (if starts_with s ''data:'' then lstrip_chars ''data: '' s else s) \<and>
       \<not> starts_with c ''[DONE]'' \<and>
       \<not> list_ex (\<lambda>x. contains (case unicode_escape c of Some u \<Rightarrow> u | None \<Rightarrow> c) x)
            error_triggers \<and>
       loads c = Some (JObj d) \<longrightarrow>
         check_response_content loads unicode_escape decode py_str (EStr s) engine stream
             error_triggers =
           Inl (HTTPException (get_default d ''status_code'' (JInt 500))
                  (take 300 (format_value py_str
                     (get_default d ''details'' (JStr (py_str (JObj d))))))))) \<and>
   (''error'' \<notin> fst ` set d' \<or> is_placeholder_error (get_default d' ''error'' JNull) \<longrightarrow>
      check_response_content loads unicode_escape decode py_str (EDict d') engine stream
          error_triggers \<noteq> Inl (HTTPException sc detail))"
proof (intro conjI impI)
  assume a: "''error'' \<in> fst ` set d \<and> \<not> is_placeholder_error (get_default d ''error'' JNull)"
  note e = check_dict_error[of d py_str engine stream error_triggers, OF conjunct1[OF a] conjunct2[OF a]]
  show "check_response_content loads unicode_escape decode py_str (EDict d) engine stream
          error_triggers =
        Inl (HTTPException (get_default d ''status_code'' (JInt 500))
               (take 300 (format_value py_str (get_default d ''details'' (JStr (py_str (JObj d)))))))"
    by (simp add: check_response_content_def e)
  then show "error_handling_wrapper loads unicode_escape decode py_str (EDict d # rest) engine stream
          error_triggers =
        Inl (HTTPException (get_default d ''status_code'' (JInt 500))
               (take 300 (format_value py_str (get_default d ''details'' (JStr (py_str (JObj d)))))))"
    by (simp add: error_handling_wrapper_def is_heartbeat_def)
  show "length (take 300 (format_value py_str (get_default d ''details'' (JStr (py_str (JObj d))))))
        \<le> 300" by simp
  assume b: "c = (if starts_with s ''data:'' then lstrip_chars ''data: '' s else s) \<and>
       \<not> starts_with c ''[DONE]'' \<and>
       \<not> list_ex (\<lambda>x. contains (case unicode_escape c of Some u \<Rightarrow> u | None \<Rightarrow> c) x)
            error_triggers \<and>
       loads c = Some (JObj d)"
  then have b': "\<not> starts_with c ''[DONE]''"
       "\<not> list_ex (\<lambda>x. contains (case unicode_escape c of Some u \<Rightarrow> u | None \<Rightarrow> c) x) error_triggers"
       "loads c = Some (JObj d)" by blast+
  have "check_str loads unicode_escape py_str engine stream error_triggers s =
           Inl (HTTPException (get_default d ''status_code'' (JInt 500))
                  (take 300 (format_value py_str
                     (get_default d ''details'' (JStr (py_str (JObj d)))))))"
    unfolding check_str_def Let_def conjunct1[OF b, symmetric] using b' by (simp add: e)
  then show "check_response_content loads unicode_escape decode py_str (EStr s) engine stream
             error_triggers =
           Inl (HTTPException (get_default d ''status_code'' (JInt 500))
                  (take 300 (format_value py_str
                     (get_default d ''details'' (JStr (py_str (JObj d)))))))"
    by (simp add: check_response_content_def)
next
  assume "''error'' \<notin> fst ` set d' \<or> is_placeholder_error (get_default d' ''error'' JNull)"
  from check_dict_no_http[OF this, of py_str engine stream error_triggers sc detail]
  show "check_response_content loads unicode_escape decode py_str (EDict d') engine stream
          error_triggers \<noteq> Inl (HTTPException sc detail)"
    by (auto simp: check_response_content_def split: option.splits)
qed

lemma error_bad_facts:
  "''error'' \<in> fst ` set error_bad" "\<not> is_placeholder_error (get_default error_bad ''error'' JNull)"
  "get_default error_bad ''status_code'' (JInt 500) = JInt 503"
  "take 300 (format_value demo_str (get_default error_bad ''details'' (JStr (demo_str (JObj error_bad)))))
     = ''bad gateway''"
  by (simp_all add: error_bad_def is_placeholder_error_def get_default_def format_value_def)

lemma error_bad_text_facts:
  "\<not> starts_with (''data: '' @ error_bad_text) ''[DONE]''"
  "starts_with (''data: '' @ error_bad_text) ''data:''"
  "lstrip_chars ''data: '' (''data: '' @ error_bad_text) = error_bad_text"
  "\<not> starts_with error_bad_text ''[DONE]''"
  "demo_loads error_bad_text = Some (JObj error_bad)"
  by (simp_all add: starts_with_def lstrip_chars_def error_bad_text_def demo_loads_def
      hello_field_def late_field_def dq_def)

lemma error_placeholder_facts:
  "is_placeholder_error (get_default error_placeholder ''error'' JNull)"
  by (auto simp: error_placeholder_def is_placeholder_error_def get_default_def)

text \<open>
  Witness for C4: an error object with status code 503, as a dict and as a \<open>data:\<close> line, and
  a response that carries the placeholder error.
\<close>

theorem error_object_raises_http_witness:
  "''error'' \<in> fst ` set error_bad \<and>
   \<not> is_placeholder_error (get_default error_bad ''error'' JNull) \<and>
   check_response_content demo_loads Some Some demo_str (EDict error_bad) ''gpt'' True [''quota'']
     = Inl (HTTPException (JInt 503) ''bad gateway'') \<and>
   error_handling_wrapper demo_loads Some Some demo_str [EDict error_bad] ''gpt'' True [''quota'']
     = Inl (HTTPException (JInt 503) ''bad gateway'') \<and>
   error_bad_text = (if starts_with (''data: '' @ error_bad_text) ''data:''
                     then lstrip_chars ''data: '' (''data: '' @ error_bad_text)
                     else ''data: '' @ error_bad_text) \<and>
   \<not> starts_with error_bad_text ''[DONE]'' \<and>
   \<not> list_ex (\<lambda>x. contains (case Some error_bad_text of Some u \<Rightarrow> u | None \<Rightarrow> error_bad_text) x)
        [''quota''] \<and>
   demo_loads error_bad_text = Some (JObj error_bad) \<and>
   check_response_content demo_loads Some Some demo_str (EStr (''data: '' @ error_bad_text)) ''gpt'' True
       [''quota'']
     = Inl (HTTPException (JInt 503) ''bad gateway'') \<and>
   is_placeholder_error (get_default error_placeholder ''error'' JNull) \<and>
   check_response_content demo_loads Some Some demo_str (EDict error_placeholder) ''gpt'' True [''quota'']
     \<noteq> Inl (HTTPException (JInt 500) ''bad gateway'')"
proof -
  have c: "error_bad_text = (if starts_with (''data: '' @ error_bad_text) ''data:''
                     then lstrip_chars ''data: '' (''data: '' @ error_bad_text)
                     else ''data: '' @ error_bad_text)"
    using error_bad_text_facts(2) error_bad_text_facts(3) by simp
  have q: "\<not> list_ex (\<lambda>x. contains (case Some error_bad_text of Some u \<Rightarrow> u | None \<Rightarrow> error_bad_text) x)
        [''quota'']"
    by (simp add: error_bad_text_def dq_def)
  note t = error_object_raises_http[where d = error_bad and d' = error_placeholder
      and loads = demo_loads and unicode_escape = Some and decode = Some and py_str = demo_str
      and engine = "''gpt''" and stream = True and error_triggers = "[''quota'']" and rest = "[]"
      and c = error_bad_text and s = "''data: '' @ error_bad_text"
      and sc = "JInt 500" and detail = "''bad gateway''"]
  show ?thesis
    using t c q error_bad_facts error_bad_text_facts(4) error_bad_text_facts(5)
      error_placeholder_facts
    by simp
qed

text \<open>
  Counterexample to C4 as stated: the object \<open>{"error": null, "details": "no error"}\<close> has an
  empty error field, and the check raises HTTPException 500.
\<close>

theorem null_error_raises_counterexample:
  "get_default error_null ''error'' JNull = JNull \<and>
   check_response_content demo_loads Some Some demo_str (EDict error_null) ''gpt'' True []
     = Inl (HTTPException (JInt 500) ''no error'')"
  by (simp add: check_response_content_def check_dict_def error_null_def get_default_def
      is_placeholder_error_def format_value_def Let_def)











end
